theory Spec2Isabelle
  imports Main "HOL-Library.Word" "HOL-Library.Sublist"
begin

unbundle bit_operations_syntax

section \<open>Data model of tls_offload.cpp\<close>

text \<open>
  The file is a thin layer over OpenSSL. Objects of the library are records that hold
  the fields the code reads through the library's accessors. A nullable pointer to an
  immutable object is an \<open>option\<close>; an out-parameter (a pointer to a cell the callee
  writes) is a \<open>ptr\<close>, with the cell's content; a function pointer is an \<open>fnptr\<close>.
  Dereferencing a null pointer is the fault \<open>NullDeref\<close>: a function that can do so
  returns \<open>fault + result\<close>.
\<close>

type_synonym byte = "8 word"
type_synonym addr = nat

datatype fault = NullDeref

datatype 'a ptr = Null | Ptr 'a

datatype fnptr = NullFn | LibFn nat | Fn_CustomDigestSign | Fn_EngineGetMethods

text \<open>
  Constants of the OpenSSL headers (openssl/evp.h, openssl/ssl3.h, openssl/tls1.h,
  openssl/dtls1.h). \<open>TLS_ANY_VERSION\<close> is the version of the methods that negotiate the
  protocol version (\<open>TLS_method\<close> and its server and client forms),
  \<open>DTLS_ANY_VERSION\<close> that of \<open>DTLS_method\<close>; a method for one protocol
  version, such as \<open>TLSv1_2_method\<close>, has that version.
\<close>

definition EVP_PKEY_RSA :: int where "EVP_PKEY_RSA = 6"
definition EVP_PKEY_EC :: int where "EVP_PKEY_EC = 408"
definition SSL3_VERSION :: int where "SSL3_VERSION = 0x0300"
definition TLS1_2_VERSION :: int where "TLS1_2_VERSION = 0x0303"
definition TLS1_3_VERSION :: int where "TLS1_3_VERSION = 0x0304"
definition TLS_MAX_VERSION_INTERNAL :: int where "TLS_MAX_VERSION_INTERNAL = TLS1_3_VERSION"
definition TLS_ANY_VERSION :: int where "TLS_ANY_VERSION = 0x10000"
definition DTLS1_BAD_VER :: int where "DTLS1_BAD_VER = 0x0100"
definition DTLS1_2_VERSION :: int where "DTLS1_2_VERSION = 0xFEFD"
definition DTLS_MAX_VERSION_INTERNAL :: int where "DTLS_MAX_VERSION_INTERNAL = DTLS1_2_VERSION"
definition DTLS_ANY_VERSION :: int where "DTLS_ANY_VERSION = 0x1FFFF"
definition EVP_PKEY_FLAG_DYNAMIC :: int where "EVP_PKEY_FLAG_DYNAMIC = 1"
definition EVP_PKEY_FLAG_AUTOARGLEN :: int where "EVP_PKEY_FLAG_AUTOARGLEN = 2"
definition EVP_PKEY_FLAG_SIGCTX_CUSTOM :: int where "EVP_PKEY_FLAG_SIGCTX_CUSTOM = 4"

text \<open>
  The signing callback: output buffer (\<open>None\<close> is a null buffer, as in the sizing call),
  the value of the in/out length, the digest and its length; it returns the success flag,
  the buffer and the length as it leaves them.
\<close>

type_synonym SignFunc =
  "byte list option \<Rightarrow> nat \<Rightarrow> byte list \<Rightarrow> nat \<Rightarrow> int \<times> byte list option \<times> nat"

text \<open>
  Modelled from the spec: the class CustomKey is declared in tls_offload.h, which is not
  part of the sources. The External Signer Handle holds a callback reference with
  signature sign(output_buffer, output_len_inout, input_digest, input_len).
  \<open>key_addr\<close> is the address of the object, which is what tells two handles apart.
\<close>

record CustomKey =
  key_addr :: addr
  sign_func :: SignFunc

text \<open>
  Modelled from the spec: the method Sign of CustomKey, declared in tls_offload.h. It is the
  one operation of the handle, Sign(signature_out, signature_len_inout, digest_in,
  digest_len), and produces the signature with the callback the handle was built from.
\<close>

definition Sign :: "CustomKey \<Rightarrow> SignFunc" where
  "Sign key = sign_func key"

record EVP_PKEY_METHOD =
  pmeth_pkey_id :: int
  pmeth_flags :: int
  pmeth_init :: fnptr
  pmeth_cleanup :: fnptr
  pmeth_ctrl :: fnptr
  pmeth_ctrl_str :: fnptr
  pmeth_digestsign :: fnptr

record ENGINE =
  engine_addr :: addr
  engine_pkey_meths :: fnptr

text \<open>
  A key object: its type identifier, the RSA or EC_KEY object it wraps (an address in the
  store of ex-data below) and the engine its private operations are routed to.
\<close>

record EVP_PKEY =
  pkey_type :: int
  pkey_ptr :: "addr option"
  pmeth_engine :: "ENGINE option"

record X509_PUBKEY =
  algor :: int
  public_key :: "byte list"

record X509 =
  cert_info_key :: X509_PUBKEY
  cert_rest :: "byte list"

record BIO =
  bio_buf :: string

record EVP_PKEY_CTX =
  pctx_pkey :: "EVP_PKEY option"

record EVP_MD_CTX =
  md_pctx :: EVP_PKEY_CTX

text \<open>
  A TLS context: the version of the method it was created with (\<open>ctx->method->version\<close>),
  the key and the certificate it serves with, and its minimum protocol version (0 when
  none is set).
\<close>

record SSL_CTX =
  ctx_method_version :: int
  ctx_private_key :: "EVP_PKEY option"
  ctx_certificate :: "X509 option"
  min_proto_version :: int

text \<open>What the process does that can be observed from outside, in order.\<close>

datatype event =
    Stdout string
  | Stderr string
  | ERR_print_errors_stderr
  | Call_RSA_get_ex_new_index int
  | Call_EC_KEY_get_ex_new_index int
  | Call_Sign addr "byte list option" nat "byte list" nat

text \<open>
  The state: the six file-level variables of lines 50 to 53, the ex-data attached to RSA
  and EC_KEY objects (by address of the object and slot index), and the trace of
  observable events.
\<close>

record world =
  EnableLogging :: bool
  rsa_ex_index :: int
  ec_ex_index :: int
  custom_rsa_pkey_method :: "EVP_PKEY_METHOD option"
  custom_ec_pkey_method :: "EVP_PKEY_METHOD option"
  custom_engine :: "ENGINE option"
  ex_data :: "addr \<times> int \<rightharpoonup> CustomKey"
  trace :: "event list"

definition initial_world :: world where
  "initial_world =
     \<lparr>EnableLogging = False, rsa_ex_index = - 1, ec_ex_index = - 1,
      custom_rsa_pkey_method = None, custom_ec_pkey_method = None,
      custom_engine = None, ex_data = Map.empty, trace = []\<rparr>"

text \<open>
  What the C library and OpenSSL answer during one call of the entry point: the
  environment, the results of allocations and of parsing, and whether each operation of
  the library that can fail succeeds. Every theorem below holds for any such behaviour.
\<close>

record extern =
  getenv :: "string \<Rightarrow> string option"
  RSA_get_ex_new_index :: int
  EC_KEY_get_ex_new_index :: int
  EVP_PKEY_meth_new_ok :: "int \<Rightarrow> bool"
  EVP_PKEY_meth_find :: "int \<Rightarrow> EVP_PKEY_METHOD option"
  ENGINE_new :: "ENGINE option"
  ENGINE_set_pkey_meths_ok :: bool
  BIO_new_mem_buf :: "string \<Rightarrow> nat \<Rightarrow> BIO option"
  PEM_read_bio_X509 :: "BIO \<Rightarrow> X509 option"
  i2d_X509_PUBKEY :: "X509_PUBKEY \<Rightarrow> int \<times> byte list"
  d2i_X509_PUBKEY :: "byte list \<Rightarrow> int \<Rightarrow> X509_PUBKEY option"
  X509_PUBKEY_get :: "X509_PUBKEY \<Rightarrow> EVP_PKEY option"
  EVP_PKEY_set1_engine_ok :: "EVP_PKEY \<Rightarrow> ENGINE option \<Rightarrow> bool"
  set_ex_data_ok :: "addr \<Rightarrow> int \<Rightarrow> bool"
  SSL_CTX_use_PrivateKey_ok :: "SSL_CTX \<Rightarrow> EVP_PKEY \<Rightarrow> bool"
  SSL_CTX_use_certificate_ok :: "SSL_CTX \<Rightarrow> X509 \<Rightarrow> bool"
  SSL_CTX_set_min_proto_version_ok :: "SSL_CTX \<Rightarrow> int \<Rightarrow> bool"

section \<open>The operations of OpenSSL that change an object\<close>

text \<open>
  Each follows the library: on failure the object is left as it was and the result is 0;
  on success the result is 1 and the object is updated, except for the version bound of a
  context, which the library writes only on some contexts (see below). A new method table
  has its identifier, the flags it was asked for together with the flag that marks it as
  allocated, and no function set. The key given to \<open>SSL_CTX_use_PrivateKey\<close> here is
  decoded from the public key of the certificate given to \<open>SSL_CTX_use_certificate\<close>,
  so the library's comparison of the two finds them equal and the key stays installed.
\<close>

definition emit :: "world \<Rightarrow> event \<Rightarrow> world" where
  "emit w e = w\<lparr>trace := trace w @ [e]\<rparr>"

definition EVP_PKEY_id :: "EVP_PKEY \<Rightarrow> int" where
  "EVP_PKEY_id pkey = pkey_type pkey"

definition EVP_PKEY_get0_RSA :: "EVP_PKEY \<Rightarrow> addr option" where
  "EVP_PKEY_get0_RSA pkey = (if pkey_type pkey = EVP_PKEY_RSA then pkey_ptr pkey else None)"

definition EVP_PKEY_get0_EC_KEY :: "EVP_PKEY \<Rightarrow> addr option" where
  "EVP_PKEY_get0_EC_KEY pkey = (if pkey_type pkey = EVP_PKEY_EC then pkey_ptr pkey else None)"

text \<open>A slot index below 0 was never allocated, and storing into it fails.\<close>

definition set_ex_data :: "extern \<Rightarrow> world \<Rightarrow> addr \<Rightarrow> int \<Rightarrow> CustomKey \<Rightarrow> int \<times> world" where
  "set_ex_data ext w obj idx key =
     (if 0 \<le> idx \<and> set_ex_data_ok ext obj idx
      then (1, w\<lparr>ex_data := (ex_data w)((obj, idx) \<mapsto> key)\<rparr>)
      else (0, w))"

definition get_ex_data :: "world \<Rightarrow> addr \<Rightarrow> int \<Rightarrow> CustomKey option" where
  "get_ex_data w obj idx = ex_data w (obj, idx)"

definition EVP_MD_CTX_pkey_ctx :: "EVP_MD_CTX \<Rightarrow> EVP_PKEY_CTX" where
  "EVP_MD_CTX_pkey_ctx ctx = md_pctx ctx"

definition EVP_PKEY_CTX_get0_pkey :: "EVP_PKEY_CTX \<Rightarrow> EVP_PKEY option" where
  "EVP_PKEY_CTX_get0_pkey pctx = pctx_pkey pctx"

definition EVP_PKEY_meth_new :: "extern \<Rightarrow> int \<Rightarrow> int \<Rightarrow> EVP_PKEY_METHOD option" where
  "EVP_PKEY_meth_new ext nid flags =
     (if EVP_PKEY_meth_new_ok ext nid
      then Some \<lparr>pmeth_pkey_id = nid, pmeth_flags = flags OR EVP_PKEY_FLAG_DYNAMIC,
                 pmeth_init = NullFn,
                 pmeth_cleanup = NullFn, pmeth_ctrl = NullFn, pmeth_ctrl_str = NullFn,
                 pmeth_digestsign = NullFn\<rparr>
      else None)"

definition ENGINE_set_pkey_meths :: "extern \<Rightarrow> ENGINE \<Rightarrow> fnptr \<Rightarrow> int \<times> ENGINE" where
  "ENGINE_set_pkey_meths ext e f =
     (if ENGINE_set_pkey_meths_ok ext then (1, e\<lparr>engine_pkey_meths := f\<rparr>) else (0, e))"

text \<open>
  The accessor reads a field of the certificate it is given (\<open>x->cert_info.key\<close> in the
  library), so a null certificate is a null-pointer dereference.
\<close>

definition X509_get_X509_PUBKEY :: "X509 option \<Rightarrow> fault + X509_PUBKEY" where
  "X509_get_X509_PUBKEY cert =
     (case cert of None \<Rightarrow> Inl NullDeref | Some x \<Rightarrow> Inr (cert_info_key x))"

definition EVP_PKEY_set1_engine :: "extern \<Rightarrow> EVP_PKEY \<Rightarrow> ENGINE option \<Rightarrow> int \<times> EVP_PKEY" where
  "EVP_PKEY_set1_engine ext pkey e =
     (if EVP_PKEY_set1_engine_ok ext pkey e then (1, pkey\<lparr>pmeth_engine := e\<rparr>) else (0, pkey))"

definition SSL_CTX_use_PrivateKey :: "extern \<Rightarrow> SSL_CTX \<Rightarrow> EVP_PKEY \<Rightarrow> int \<times> SSL_CTX" where
  "SSL_CTX_use_PrivateKey ext ctx pkey =
     (if SSL_CTX_use_PrivateKey_ok ext ctx pkey
      then (1, ctx\<lparr>ctx_private_key := Some pkey\<rparr>) else (0, ctx))"

definition SSL_CTX_use_certificate :: "extern \<Rightarrow> SSL_CTX \<Rightarrow> X509 option \<Rightarrow> int \<times> SSL_CTX" where
  "SSL_CTX_use_certificate ext ctx x =
     (case x of
        None \<Rightarrow> (0, ctx)
      | Some c \<Rightarrow>
          if SSL_CTX_use_certificate_ok ext ctx c
          then (1, ctx\<lparr>ctx_certificate := Some c\<rparr>) else (0, ctx))"

text \<open>
  Setting a version bound, as \<open>ssl_set_version_bound\<close> of OpenSSL 3 does it (ssl/ssl_lib.c):
  version 0 clears the bound; a version that is neither a TLS nor a DTLS version is
  refused; otherwise the result is 1, and the bound is written only when the method
  negotiates its version and the version is of the method's kind. On a context of a method
  for one protocol version, and on a DTLS context given a TLS version, the result is 1 and
  the bound stays as it was. DTLS versions count downwards, so they are compared through
  \<open>dtls_ver_ordinal\<close>.
\<close>

definition dtls_ver_ordinal :: "int \<Rightarrow> int" where
  "dtls_ver_ordinal v = (if v = DTLS1_BAD_VER then 0xFF00 else v)"

definition valid_tls :: "int \<Rightarrow> bool" where
  "valid_tls version \<longleftrightarrow> SSL3_VERSION \<le> version \<and> version \<le> TLS_MAX_VERSION_INTERNAL"

definition valid_dtls :: "int \<Rightarrow> bool" where
  "valid_dtls version \<longleftrightarrow>
     dtls_ver_ordinal DTLS_MAX_VERSION_INTERNAL \<le> dtls_ver_ordinal version
     \<and> dtls_ver_ordinal version \<le> dtls_ver_ordinal DTLS1_BAD_VER"

definition ssl_set_version_bound :: "int \<Rightarrow> int \<Rightarrow> int \<Rightarrow> int \<times> int" where
  "ssl_set_version_bound method_version version bound =
     (if version = 0 then (1, version)
      else if \<not> valid_tls version \<and> \<not> valid_dtls version then (0, bound)
      else if method_version = TLS_ANY_VERSION
        then (1, if valid_tls version then version else bound)
      else if method_version = DTLS_ANY_VERSION
        then (1, if valid_dtls version then version else bound)
      else (1, bound))"

text \<open>
  \<open>SSL_CTX_set_min_proto_version\<close>: the library first decides whether it accepts the
  version for this context (in OpenSSL 3 the check of the range against the maximum of the
  context and the protocols compiled in; OpenSSL 1.1.1 also refuses every context of a
  method for one protocol version), which is the answer
  \<open>SSL_CTX_set_min_proto_version_ok\<close>, and then sets the bound as above.
\<close>

definition SSL_CTX_set_min_proto_version :: "extern \<Rightarrow> SSL_CTX \<Rightarrow> int \<Rightarrow> int \<times> SSL_CTX" where
  "SSL_CTX_set_min_proto_version ext ctx v =
     (if \<not> SSL_CTX_set_min_proto_version_ok ext ctx v then (0, ctx)
      else
        (case ssl_set_version_bound (ctx_method_version ctx) v (min_proto_version ctx) of
           (r, bound) \<Rightarrow> (r, ctx\<lparr>min_proto_version := bound\<rparr>)))"

definition ERR_print_errors_fp :: "world \<Rightarrow> world" where
  "ERR_print_errors_fp w = emit w ERR_print_errors_stderr"

section \<open>Printing numbers\<close>

definition digit_char :: "nat \<Rightarrow> char" where
  "digit_char d = char_of (48 + d)"

function show_nat :: "nat \<Rightarrow> string" where
  "show_nat n = (if n < 10 then [digit_char n] else show_nat (n div 10) @ [digit_char (n mod 10)])"
  by pat_completeness auto
termination
  by (relation "measure id") auto

declare show_nat.simps [simp del]

definition show_int :: "int \<Rightarrow> string" where
  "show_int i = (if i < 0 then CHR ''-'' # show_nat (nat (- i)) else show_nat (nat i))"

section \<open>The functions of tls_offload.cpp\<close>

definition kNIDs :: "int list" where
  "kNIDs = [EVP_PKEY_EC, EVP_PKEY_RSA]"

text \<open>Lines 55 to 71. The result is the return value and the two cells as left.\<close>

definition EngineGetMethods ::
  "world \<Rightarrow> ENGINE \<Rightarrow> EVP_PKEY_METHOD option ptr \<Rightarrow> int list ptr \<Rightarrow> int
     \<Rightarrow> fault + (int \<times> EVP_PKEY_METHOD option ptr \<times> int list ptr)" where
  "EngineGetMethods w e out_method out_nids nid =
     (case out_method of
        Null \<Rightarrow>
          (case out_nids of
             Null \<Rightarrow> Inl NullDeref
           | Ptr _ \<Rightarrow> Inr (int (length kNIDs), out_method, Ptr kNIDs))
      | Ptr _ \<Rightarrow>
          if nid = EVP_PKEY_EC then Inr (1, Ptr (custom_ec_pkey_method w), out_nids)
          else if nid = EVP_PKEY_RSA then Inr (1, Ptr (custom_rsa_pkey_method w), out_nids)
          else Inr (0, out_method, out_nids))"

text \<open>Lines 73 to 77.\<close>

definition LogInfo :: "world \<Rightarrow> string \<Rightarrow> world" where
  "LogInfo w message =
     (if EnableLogging w then emit w (Stdout (''tls_offload.cpp: '' @ message @ ''....''))
      else w)"

text \<open>Lines 79 to 87.\<close>

definition InitExData :: "extern \<Rightarrow> world \<Rightarrow> bool \<times> world" where
  "InitExData ext w =
     (let r = RSA_get_ex_new_index ext;
          w1 = emit (w\<lparr>rsa_ex_index := r\<rparr>) (Call_RSA_get_ex_new_index r);
          c = EC_KEY_get_ex_new_index ext;
          w2 = emit (w1\<lparr>ec_ex_index := c\<rparr>) (Call_EC_KEY_get_ex_new_index c)
      in if rsa_ex_index w2 < 0 \<or> ec_ex_index w2 < 0
         then (False, emit w2 (Stderr ''Error allocating ex data.''))
         else (True, w2))"

text \<open>Lines 89 to 101.\<close>

definition SetCustomKey :: "extern \<Rightarrow> world \<Rightarrow> EVP_PKEY \<Rightarrow> CustomKey \<Rightarrow> bool \<times> world" where
  "SetCustomKey ext w pkey key =
     (if EVP_PKEY_id pkey = EVP_PKEY_RSA then
        (let w1 = LogInfo w ''setting RSA custom key'' in
         case EVP_PKEY_get0_RSA pkey of
           None \<Rightarrow> (False, w1)
         | Some rsa \<Rightarrow>
             (case set_ex_data ext w1 rsa (rsa_ex_index w1) key of (r, w2) \<Rightarrow> (r \<noteq> 0, w2)))
      else if EVP_PKEY_id pkey = EVP_PKEY_EC then
        (let w1 = LogInfo w ''setting EC custom key'' in
         case EVP_PKEY_get0_EC_KEY pkey of
           None \<Rightarrow> (False, w1)
         | Some ec_key \<Rightarrow>
             (case set_ex_data ext w1 ec_key (ec_ex_index w1) key of (r, w2) \<Rightarrow> (r \<noteq> 0, w2)))
      else (False, w))"

text \<open>Lines 103 to 113.\<close>

definition GetCustomKey :: "world \<Rightarrow> EVP_PKEY \<Rightarrow> CustomKey option" where
  "GetCustomKey w pkey =
     (if EVP_PKEY_id pkey = EVP_PKEY_RSA then
        (case EVP_PKEY_get0_RSA pkey of
           None \<Rightarrow> None
         | Some rsa \<Rightarrow> get_ex_data w rsa (rsa_ex_index w))
      else if EVP_PKEY_id pkey = EVP_PKEY_EC then
        (case EVP_PKEY_get0_EC_KEY pkey of
           None \<Rightarrow> None
         | Some ec_key \<Rightarrow> get_ex_data w ec_key (ec_ex_index w))
      else None)"

text \<open>
  Lines 115 to 137. The thunk is the digestsign entry of a method table, reached through
  the EVP_PKEY_CTX of the digest context, so that context is always there; the key it
  holds may be null. The result is the return value, the output buffer, the output
  length and the state.
\<close>

definition CustomDigestSign ::
  "world \<Rightarrow> EVP_MD_CTX \<Rightarrow> byte list option \<Rightarrow> nat \<Rightarrow> byte list \<Rightarrow> nat
     \<Rightarrow> int \<times> byte list option \<times> nat \<times> world" where
  "CustomDigestSign w ctx sig sig_len tbs tbs_len =
     (let w1 = LogInfo w ''calling CustomDigestSign'';
          pctx = EVP_MD_CTX_pkey_ctx ctx
      in case EVP_PKEY_CTX_get0_pkey pctx of
           None \<Rightarrow> (0, sig, sig_len, emit w1 (Stderr ''Could not get EVP_PKEY.''))
         | Some pkey \<Rightarrow>
             (case GetCustomKey w1 pkey of
                None \<Rightarrow>
                  (0, sig, sig_len, emit w1 (Stderr ''Could not get CustomKey from EVP_PKEY.''))
              | Some key \<Rightarrow>
                  (let w2 = (if EnableLogging w1
                             then emit w1 (Stdout (''tls_offload.cpp: before calling key->Sign, sig len: ''
                                                   @ show_nat sig_len))
                             else w1);
                       w3 = emit w2 (Call_Sign (key_addr key) sig sig_len tbs tbs_len)
                   in case Sign key sig sig_len tbs tbs_len of
                        (res, sig', sig_len') \<Rightarrow>
                          (let w4 = (if EnableLogging w3
                                     then emit w3 (Stdout (''tls_offload.cpp: after calling key->Sign, sig len: ''
                                                           @ show_nat sig_len' @ '', result: '' @ show_int res))
                                     else w3)
                           in (res, sig', sig_len', w4)))))"

text \<open>Lines 139 to 163.\<close>

definition MakeCustomMethod :: "extern \<Rightarrow> int \<Rightarrow> EVP_PKEY_METHOD option" where
  "MakeCustomMethod ext nid =
     (case EVP_PKEY_meth_new ext nid (EVP_PKEY_FLAG_SIGCTX_CUSTOM OR EVP_PKEY_FLAG_AUTOARGLEN) of
        None \<Rightarrow> None
      | Some method \<Rightarrow>
          (case EVP_PKEY_meth_find ext nid of
             None \<Rightarrow> None
           | Some ossl_method \<Rightarrow>
               Some (method\<lparr>pmeth_init := pmeth_init ossl_method,
                            pmeth_cleanup := pmeth_cleanup ossl_method,
                            pmeth_ctrl := pmeth_ctrl ossl_method,
                            pmeth_ctrl_str := pmeth_ctrl_str ossl_method,
                            pmeth_digestsign := Fn_CustomDigestSign\<rparr>)))"

text \<open>Lines 165 to 186.\<close>

definition ConfigureCertAndCustomKey ::
  "extern \<Rightarrow> world \<Rightarrow> CustomKey \<Rightarrow> X509 option \<Rightarrow> fault + (EVP_PKEY option \<times> world)" where
  "ConfigureCertAndCustomKey ext w custom_key cert =
     (case X509_get_X509_PUBKEY cert of
        Inl f \<Rightarrow> Inl f
      | Inr pk \<Rightarrow>
          (case i2d_X509_PUBKEY ext pk of
             (spki_len, spki) \<Rightarrow>
               if spki_len < 0 then Inr (None, w)
               else
                 (case d2i_X509_PUBKEY ext spki spki_len of
                    None \<Rightarrow> Inr (None, w)
                  | Some pubkey \<Rightarrow>
                      (case X509_PUBKEY_get ext pubkey of
                         None \<Rightarrow> Inr (None, w)
                       | Some wrapped0 \<Rightarrow>
                           (case EVP_PKEY_set1_engine ext wrapped0 (custom_engine w) of
                              (r, wrapped) \<Rightarrow>
                                if r = 0 then Inr (None, w)
                                else
                                  (case SetCustomKey ext w wrapped custom_key of
                                     (ok, w1) \<Rightarrow>
                                       if \<not> ok then Inr (None, w1)
                                       else Inr (Some wrapped, w1)))))))"

text \<open>Lines 188 to 201.\<close>

definition InitEngine :: "extern \<Rightarrow> world \<Rightarrow> bool \<times> world" where
  "InitEngine ext w =
     (let w1 = w\<lparr>custom_rsa_pkey_method := MakeCustomMethod ext EVP_PKEY_RSA\<rparr>;
          w2 = w1\<lparr>custom_ec_pkey_method := MakeCustomMethod ext EVP_PKEY_EC\<rparr>
      in if custom_rsa_pkey_method w2 = None \<or> custom_ec_pkey_method w2 = None
         then (False, w2)
         else
           (case ENGINE_new ext of
              None \<Rightarrow> (False, w2)
            | Some engine0 \<Rightarrow>
                (case ENGINE_set_pkey_meths ext engine0 Fn_EngineGetMethods of
                   (r, engine) \<Rightarrow>
                     if r = 0 then (False, w2)
                     else (True, w2\<lparr>custom_engine := Some engine\<rparr>))))"

text \<open>Lines 203 to 233.\<close>

definition ServeTLS ::
  "extern \<Rightarrow> world \<Rightarrow> CustomKey \<Rightarrow> string \<Rightarrow> SSL_CTX \<Rightarrow> fault + (bool \<times> world \<times> SSL_CTX)" where
  "ServeTLS ext w custom_key cert ctx =
     (let w1 = LogInfo w ''calling ServeTLS'';
          w2 = LogInfo w1 ''create x509 using the provided cert''
      in case BIO_new_mem_buf ext cert (length cert) of
           None \<Rightarrow> Inr (False, LogInfo w2 ''failed to read cert into bio'', ctx)
         | Some bio \<Rightarrow>
             (let x509 = PEM_read_bio_X509 ext bio;
                  w3 = LogInfo w2 ''create custom key''
              in case ConfigureCertAndCustomKey ext w3 custom_key x509 of
                   Inl f \<Rightarrow> Inl f
                 | Inr (None, w4) \<Rightarrow> Inr (False, LogInfo w4 ''failed to create custom key'', ctx)
                 | Inr (Some wrapped_key, w4) \<Rightarrow>
                     (case SSL_CTX_use_PrivateKey ext ctx wrapped_key of
                        (r1, ctx1) \<Rightarrow>
                          if r1 = 0
                          then Inr (False, LogInfo w4 ''SSL_CTX_use_PrivateKey failed'', ctx1)
                          else
                            (case SSL_CTX_use_certificate ext ctx1 x509 of
                               (r2, ctx2) \<Rightarrow>
                                 if r2 = 0
                                 then Inr (False, LogInfo w4 ''SSL_CTX_use_certificate failed'', ctx2)
                                 else
                                   (case SSL_CTX_set_min_proto_version ext ctx2 TLS1_3_VERSION of
                                      (r3, ctx3) \<Rightarrow>
                                        if r3 = 0
                                        then Inr (False,
                                                  LogInfo w4 ''SSL_CTX_set_min_proto_version failed'',
                                                  ctx3)
                                        else Inr (True, w4, ctx3))))))"

text \<open>
  Lines 246 to 252: the lazy initialisation of the entry point, \<open>InitExData\<close> and then,
  only if it succeeded, \<open>InitEngine\<close>.
\<close>

definition lazy_init :: "extern \<Rightarrow> world \<Rightarrow> bool \<times> world" where
  "lazy_init ext w =
     (if custom_engine w = None then
        (let w1 = LogInfo w ''initializing ex data and custom engine'' in
         case InitExData ext w1 of
           (ok, w2) \<Rightarrow> if \<not> ok then (False, w2) else InitEngine ext w2)
      else (True, w))"

text \<open>Lines 242 to 259.\<close>

definition OffloadSigning ::
  "extern \<Rightarrow> world \<Rightarrow> CustomKey \<Rightarrow> string \<Rightarrow> SSL_CTX \<Rightarrow> fault + (int \<times> world \<times> SSL_CTX)" where
  "OffloadSigning ext w custom_key cert ctx =
     (let val = getenv ext ''GOOGLE_AUTH_TLS_OFFLOAD_LOGGING'';
          w1 = w\<lparr>EnableLogging := (if val = None then False else True)\<rparr>;
          w2 = LogInfo w1 ''entering offload function''
      in case lazy_init ext w2 of
           (ready, w3) \<Rightarrow>
             if \<not> ready then Inr (0, ERR_print_errors_fp w3, ctx)
             else
               (case ServeTLS ext w3 custom_key cert ctx of
                  Inl f \<Rightarrow> Inl f
                | Inr (served, w4, ctx') \<Rightarrow>
                    if \<not> served then Inr (0, ERR_print_errors_fp w4, ctx')
                    else Inr (1, LogInfo w4 ''offload function is done'', ctx')))"

text \<open>
  Lines 265 to 270; \<open>a\<close> is the address the allocation returns. The message of the
  source ends in a newline.
\<close>

definition CreateCustomKey :: "world \<Rightarrow> addr \<Rightarrow> SignFunc \<Rightarrow> CustomKey \<times> world" where
  "CreateCustomKey w a sign_fn =
     (let key = \<lparr>key_addr = a, sign_func = sign_fn\<rparr>
      in (key, if EnableLogging w then LogInfo w (''In CreateCustomKey'' @ [CHR 10]) else w))"

text \<open>Lines 276 to 280; releasing the memory of the handle is not part of the state.\<close>

definition DestroyCustomKey :: "world \<Rightarrow> CustomKey \<Rightarrow> world" where
  "DestroyCustomKey w key =
     (if EnableLogging w then LogInfo w (''In DestroyCustomKey'' @ [CHR 10]) else w)"

section \<open>Reading the trace\<close>

fun stdout_lines :: "event list \<Rightarrow> string list" where
  "stdout_lines [] = []"
| "stdout_lines (Stdout s # tr) = s # stdout_lines tr"
| "stdout_lines (_ # tr) = stdout_lines tr"

fun sign_calls :: "event list \<Rightarrow> event list" where
  "sign_calls [] = []"
| "sign_calls (Call_Sign a sig sig_len tbs tbs_len # tr) =
     Call_Sign a sig sig_len tbs tbs_len # sign_calls tr"
| "sign_calls (_ # tr) = sign_calls tr"

fun sign_call_targets :: "event list \<Rightarrow> addr list" where
  "sign_call_targets [] = []"
| "sign_call_targets (Call_Sign a sig sig_len tbs tbs_len # tr) = a # sign_call_targets tr"
| "sign_call_targets (_ # tr) = sign_call_targets tr"

text \<open>
  Each run of \<open>InitExData\<close> asks the library for one RSA slot index, and nothing else
  does, so the runs are the index requests in the trace.
\<close>

fun InitExData_runs :: "event list \<Rightarrow> nat" where
  "InitExData_runs [] = 0"
| "InitExData_runs (Call_RSA_get_ex_new_index r # tr) = Suc (InitExData_runs tr)"
| "InitExData_runs (_ # tr) = InitExData_runs tr"

text \<open>
  The lines printed to the standard output between a state and a later one.
\<close>

definition new_stdout :: "world \<Rightarrow> world \<Rightarrow> string list" where
  "new_stdout w w' = drop (length (stdout_lines (trace w))) (stdout_lines (trace w'))"

text \<open>What the thunk adds to the trace when it reaches the handle.\<close>

definition sign_log ::
  "bool \<Rightarrow> CustomKey \<Rightarrow> byte list option \<Rightarrow> nat \<Rightarrow> byte list \<Rightarrow> nat \<Rightarrow> event list" where
  "sign_log logging key sig sig_len tbs tbs_len =
     (if logging
      then [Stdout ''tls_offload.cpp: calling CustomDigestSign....'',
            Stdout (''tls_offload.cpp: before calling key->Sign, sig len: '' @ show_nat sig_len),
            Call_Sign (key_addr key) sig sig_len tbs tbs_len,
            Stdout (''tls_offload.cpp: after calling key->Sign, sig len: ''
                    @ show_nat (snd (snd (Sign key sig sig_len tbs tbs_len))) @ '', result: ''
                    @ show_int (fst (Sign key sig sig_len tbs tbs_len)))]
      else [Call_Sign (key_addr key) sig sig_len tbs tbs_len])"

section \<open>The process: a sequence of calls into the library\<close>

text \<open>
  The host calls the three exported functions, and OpenSSL calls the thunk during a
  handshake. The file-level variables live as long as the process, so a sequence of
  calls threads the state through; a fault ends the process.
\<close>

datatype api_call =
    Do_OffloadSigning extern CustomKey string SSL_CTX
  | Do_CustomDigestSign EVP_MD_CTX "byte list option" nat "byte list" nat
  | Do_CreateCustomKey addr SignFunc
  | Do_DestroyCustomKey CustomKey

fun api_step :: "world \<Rightarrow> api_call \<Rightarrow> fault + world" where
  "api_step w (Do_OffloadSigning ext key cert ctx) =
     (case OffloadSigning ext w key cert ctx of
        Inl f \<Rightarrow> Inl f
      | Inr (r, w', ctx') \<Rightarrow> Inr w')"
| "api_step w (Do_CustomDigestSign ctx sig sig_len tbs tbs_len) =
     Inr (snd (snd (snd (CustomDigestSign w ctx sig sig_len tbs tbs_len))))"
| "api_step w (Do_CreateCustomKey a sign_fn) = Inr (snd (CreateCustomKey w a sign_fn))"
| "api_step w (Do_DestroyCustomKey key) = Inr (DestroyCustomKey w key)"

fun run_calls :: "world \<Rightarrow> api_call list \<Rightarrow> fault + world" where
  "run_calls w [] = Inr w"
| "run_calls w (c # cs) =
     (case api_step w c of Inl f \<Rightarrow> Inl f | Inr w' \<Rightarrow> run_calls w' cs)"

text \<open>
  Whether the logging variable was present in the environment of the last call of
  \<open>OffloadSigning\<close> in a sequence; \<open>b\<close> is the answer when there is no such call.
\<close>

fun last_logging :: "bool \<Rightarrow> api_call list \<Rightarrow> bool" where
  "last_logging b [] = b"
| "last_logging b (Do_OffloadSigning ext key cert ctx # cs) =
     last_logging (getenv ext ''GOOGLE_AUTH_TLS_OFFLOAD_LOGGING'' \<noteq> None) cs"
| "last_logging b (_ # cs) = last_logging b cs"

section \<open>The key family of a certificate\<close>

text \<open>
  The key object the library builds from the public key of a certificate, by the calls of
  lines 167 to 179, and whether \<open>EVP_PKEY_id\<close> reports it as RSA or EC.
\<close>

definition certificate_key :: "extern \<Rightarrow> X509 \<Rightarrow> EVP_PKEY option" where
  "certificate_key ext x =
     (case i2d_X509_PUBKEY ext (cert_info_key x) of
        (spki_len, spki) \<Rightarrow>
          if spki_len < 0 then None
          else (case d2i_X509_PUBKEY ext spki spki_len of
                  None \<Rightarrow> None
                | Some pubkey \<Rightarrow> X509_PUBKEY_get ext pubkey))"

definition rsa_or_ec_family :: "extern \<Rightarrow> X509 \<Rightarrow> bool" where
  "rsa_or_ec_family ext x =
     (case certificate_key ext x of
        None \<Rightarrow> False
      | Some pkey \<Rightarrow> EVP_PKEY_id pkey = EVP_PKEY_RSA \<or> EVP_PKEY_id pkey = EVP_PKEY_EC)"

section \<open>What a call leaves unchanged\<close>

text \<open>
  Two relations between the state before a step and the state after it. The first: the
  logging flag is kept, the trace only grows, and with logging off nothing is printed to
  the standard output. The second: the slot indices, the method tables and the engine
  are kept, and \<open>InitExData\<close> did not run.
\<close>

definition log_frame :: "world \<Rightarrow> world \<Rightarrow> bool" where
  "log_frame w w' \<longleftrightarrow>
     EnableLogging w' = EnableLogging w
     \<and> prefix (trace w) (trace w')
     \<and> (\<not> EnableLogging w \<longrightarrow> stdout_lines (trace w') = stdout_lines (trace w))"

definition init_frame :: "world \<Rightarrow> world \<Rightarrow> bool" where
  "init_frame w w' \<longleftrightarrow>
     rsa_ex_index w' = rsa_ex_index w \<and> ec_ex_index w' = ec_ex_index w
     \<and> custom_rsa_pkey_method w' = custom_rsa_pkey_method w
     \<and> custom_ec_pkey_method w' = custom_ec_pkey_method w
     \<and> custom_engine w' = custom_engine w
     \<and> InitExData_runs (trace w') = InitExData_runs (trace w)"

section \<open>Concrete inputs\<close>

text \<open>
  A callback that answers with a fixed signature of 64 bytes and success, one that
  fails, two handles, two certificates (an EC one and a DSA one, type 116) and a library
  in which every operation succeeds and the logging variable is absent.
\<close>

definition fixed_sign :: SignFunc where
  "fixed_sign sig sig_len tbs tbs_len =
     (1, (case sig of None \<Rightarrow> None | Some b \<Rightarrow> Some (replicate 64 (0x2A :: byte))), 64)"

definition failing_sign :: SignFunc where
  "failing_sign sig sig_len tbs tbs_len = (0, sig, sig_len)"

definition handle_A :: CustomKey where
  "handle_A = \<lparr>key_addr = 4096, sign_func = fixed_sign\<rparr>"

definition handle_B :: CustomKey where
  "handle_B = \<lparr>key_addr = 8192, sign_func = failing_sign\<rparr>"

definition native_method :: "int \<Rightarrow> EVP_PKEY_METHOD" where
  "native_method nid =
     \<lparr>pmeth_pkey_id = nid, pmeth_flags = 0, pmeth_init = LibFn 1, pmeth_cleanup = LibFn 2,
      pmeth_ctrl = LibFn 3, pmeth_ctrl_str = LibFn 4, pmeth_digestsign = NullFn\<rparr>"

definition ec_pem :: string where
  "ec_pem = ''-----BEGIN CERTIFICATE-----EC-----END CERTIFICATE-----''"

definition dsa_pem :: string where
  "dsa_pem = ''-----BEGIN CERTIFICATE-----DSA-----END CERTIFICATE-----''"

definition ec_cert :: X509 where
  "ec_cert = \<lparr>cert_info_key = \<lparr>algor = EVP_PKEY_EC, public_key = [4, 1, 2]\<rparr>, cert_rest = []\<rparr>"

definition dsa_cert :: X509 where
  "dsa_cert = \<lparr>cert_info_key = \<lparr>algor = 116, public_key = [7]\<rparr>, cert_rest = []\<rparr>"

definition empty_ctx :: SSL_CTX where
  "empty_ctx =
     \<lparr>ctx_method_version = TLS_ANY_VERSION, ctx_private_key = None, ctx_certificate = None,
      min_proto_version = 0\<rparr>"

definition good_lib :: extern where
  "good_lib =
     \<lparr>getenv = (\<lambda>name. None),
      RSA_get_ex_new_index = 1,
      EC_KEY_get_ex_new_index = 1,
      EVP_PKEY_meth_new_ok = (\<lambda>nid. True),
      EVP_PKEY_meth_find = (\<lambda>nid. Some (native_method nid)),
      ENGINE_new = Some \<lparr>engine_addr = 16, engine_pkey_meths = NullFn\<rparr>,
      ENGINE_set_pkey_meths_ok = True,
      BIO_new_mem_buf = (\<lambda>buf len. Some \<lparr>bio_buf = take len buf\<rparr>),
      PEM_read_bio_X509 =
        (\<lambda>bio. if bio_buf bio = ec_pem then Some ec_cert
               else if bio_buf bio = dsa_pem then Some dsa_cert else None),
      i2d_X509_PUBKEY = (\<lambda>pk. (2, [if algor pk = EVP_PKEY_EC then 1 else 0, 0])),
      d2i_X509_PUBKEY =
        (\<lambda>spki len. Some \<lparr>algor = (if take 1 spki = [1] then EVP_PKEY_EC else 116),
                           public_key = []\<rparr>),
      X509_PUBKEY_get =
        (\<lambda>pk. Some \<lparr>pkey_type = algor pk, pkey_ptr = Some 32, pmeth_engine = None\<rparr>),
      EVP_PKEY_set1_engine_ok = (\<lambda>pkey e. True),
      set_ex_data_ok = (\<lambda>obj idx. True),
      SSL_CTX_use_PrivateKey_ok = (\<lambda>ctx pkey. True),
      SSL_CTX_use_certificate_ok = (\<lambda>ctx x. True),
      SSL_CTX_set_min_proto_version_ok = (\<lambda>ctx v. True)\<rparr>"

text \<open>
  Libraries that differ from \<open>good_lib\<close> in one answer: the allocation of the
  engine fails, or the logging variable is present with an empty value.
\<close>

definition no_engine_lib :: extern where
  "no_engine_lib = good_lib\<lparr>ENGINE_new := None\<rparr>"

definition empty_value_lib :: extern where
  "empty_value_lib =
     good_lib\<lparr>getenv := (\<lambda>name. if name = ''GOOGLE_AUTH_TLS_OFFLOAD_LOGGING'' then Some [] else None)\<rparr>"

text \<open>
  Two EC keys at different addresses, a signing context holding a given key, and the
  states the calls below reach: after a successful initialisation, after handle A is
  attached to the first key, after handle B is attached to the second, and after the
  first successful call of the entry point on \<open>good_lib\<close>, with the context it leaves.
\<close>

definition ec_key :: EVP_PKEY where
  "ec_key = \<lparr>pkey_type = EVP_PKEY_EC, pkey_ptr = Some 32, pmeth_engine = None\<rparr>"

definition ec_key_B :: EVP_PKEY where
  "ec_key_B = \<lparr>pkey_type = EVP_PKEY_EC, pkey_ptr = Some 48, pmeth_engine = None\<rparr>"

definition signing_ctx :: "EVP_PKEY option \<Rightarrow> EVP_MD_CTX" where
  "signing_ctx pkey = \<lparr>md_pctx = \<lparr>pctx_pkey = pkey\<rparr>\<rparr>"

definition the_engine :: ENGINE where
  "the_engine = \<lparr>engine_addr = 16, engine_pkey_meths = Fn_EngineGetMethods\<rparr>"

definition custom_method :: "int \<Rightarrow> EVP_PKEY_METHOD" where
  "custom_method nid =
     \<lparr>pmeth_pkey_id = nid, pmeth_flags = 7, pmeth_init = LibFn 1, pmeth_cleanup = LibFn 2,
      pmeth_ctrl = LibFn 3, pmeth_ctrl_str = LibFn 4, pmeth_digestsign = Fn_CustomDigestSign\<rparr>"

definition ready_world :: world where
  "ready_world =
     \<lparr>EnableLogging = False, rsa_ex_index = 1, ec_ex_index = 1,
      custom_rsa_pkey_method = Some (custom_method EVP_PKEY_RSA),
      custom_ec_pkey_method = Some (custom_method EVP_PKEY_EC),
      custom_engine = Some the_engine, ex_data = Map.empty, trace = []\<rparr>"

definition bound_world :: world where
  "bound_world = ready_world\<lparr>ex_data := [(32, 1) \<mapsto> handle_A]\<rparr>"

definition two_bound_world :: world where
  "two_bound_world = bound_world\<lparr>ex_data := [(32, 1) \<mapsto> handle_A, (48, 1) \<mapsto> handle_B]\<rparr>"

definition served_world :: world where
  "served_world =
     bound_world\<lparr>trace := [Call_RSA_get_ex_new_index 1, Call_EC_KEY_get_ex_new_index 1]\<rparr>"

definition served_ctx :: SSL_CTX where
  "served_ctx =
     \<lparr>ctx_method_version = TLS_ANY_VERSION,
      ctx_private_key = Some (ec_key\<lparr>pmeth_engine := Some the_engine\<rparr>),
      ctx_certificate = Some ec_cert, min_proto_version = TLS1_3_VERSION\<rparr>"



section \<open>Facts about the state and the trace\<close>

lemma LogInfo_fields [simp]:
  "EnableLogging (LogInfo w m) = EnableLogging w"
  "rsa_ex_index (LogInfo w m) = rsa_ex_index w"
  "ec_ex_index (LogInfo w m) = ec_ex_index w"
  "custom_rsa_pkey_method (LogInfo w m) = custom_rsa_pkey_method w"
  "custom_ec_pkey_method (LogInfo w m) = custom_ec_pkey_method w"
  "custom_engine (LogInfo w m) = custom_engine w"
  "ex_data (LogInfo w m) = ex_data w"
  by (simp_all add: LogInfo_def emit_def)

lemma emit_fields [simp]:
  "EnableLogging (emit w e) = EnableLogging w"
  "rsa_ex_index (emit w e) = rsa_ex_index w"
  "ec_ex_index (emit w e) = ec_ex_index w"
  "custom_rsa_pkey_method (emit w e) = custom_rsa_pkey_method w"
  "custom_ec_pkey_method (emit w e) = custom_ec_pkey_method w"
  "custom_engine (emit w e) = custom_engine w"
  "ex_data (emit w e) = ex_data w"
  "trace (emit w e) = trace w @ [e]"
  by (simp_all add: emit_def)

lemma trace_LogInfo:
  "trace (LogInfo w m) =
     trace w @ (if EnableLogging w then [Stdout (''tls_offload.cpp: '' @ m @ ''....'')] else [])"
  by (simp add: LogInfo_def)

lemma stdout_lines_append [simp]: "stdout_lines (xs @ ys) = stdout_lines xs @ stdout_lines ys"
  by (induction xs rule: stdout_lines.induct) simp_all

lemma sign_calls_append [simp]: "sign_calls (xs @ ys) = sign_calls xs @ sign_calls ys"
  by (induction xs rule: sign_calls.induct) simp_all

lemma sign_call_targets_append [simp]:
  "sign_call_targets (xs @ ys) = sign_call_targets xs @ sign_call_targets ys"
  by (induction xs rule: sign_call_targets.induct) simp_all

lemma InitExData_runs_append [simp]:
  "InitExData_runs (xs @ ys) = InitExData_runs xs + InitExData_runs ys"
  by (induction xs rule: InitExData_runs.induct) simp_all

lemma get_ex_data_trace [simp]:
  "get_ex_data (w\<lparr>trace := t\<rparr>) obj idx = get_ex_data w obj idx"
  by (simp add: get_ex_data_def)

lemma get_ex_data_LogInfo [simp]: "get_ex_data (LogInfo w m) obj idx = get_ex_data w obj idx"
  by (simp add: get_ex_data_def)

lemma get_ex_data_emit [simp]: "get_ex_data (emit w e) obj idx = get_ex_data w obj idx"
  by (simp add: get_ex_data_def)

lemma GetCustomKey_trace [simp]:
  "GetCustomKey (w\<lparr>trace := t\<rparr>) pkey = GetCustomKey w pkey"
  by (simp add: GetCustomKey_def split: option.splits)

lemma GetCustomKey_LogInfo [simp]: "GetCustomKey (LogInfo w m) pkey = GetCustomKey w pkey"
  by (simp add: GetCustomKey_def split: option.splits)

lemma GetCustomKey_emit [simp]: "GetCustomKey (emit w e) pkey = GetCustomKey w pkey"
  by (simp add: GetCustomKey_def split: option.splits)

lemma ERR_print_errors_fp_fields [simp]:
  "EnableLogging (ERR_print_errors_fp w) = EnableLogging w"
  "rsa_ex_index (ERR_print_errors_fp w) = rsa_ex_index w"
  "ec_ex_index (ERR_print_errors_fp w) = ec_ex_index w"
  "custom_rsa_pkey_method (ERR_print_errors_fp w) = custom_rsa_pkey_method w"
  "custom_ec_pkey_method (ERR_print_errors_fp w) = custom_ec_pkey_method w"
  "custom_engine (ERR_print_errors_fp w) = custom_engine w"
  "ex_data (ERR_print_errors_fp w) = ex_data w"
  "trace (ERR_print_errors_fp w) = trace w @ [ERR_print_errors_stderr]"
  by (simp_all add: ERR_print_errors_fp_def)

lemma GetCustomKey_ERR [simp]: "GetCustomKey (ERR_print_errors_fp w) pkey = GetCustomKey w pkey"
  by (simp add: ERR_print_errors_fp_def)

lemmas model_defs =
  OffloadSigning_def lazy_init_def InitExData_def InitEngine_def MakeCustomMethod_def
  EVP_PKEY_meth_new_def ENGINE_set_pkey_meths_def ServeTLS_def ConfigureCertAndCustomKey_def
  X509_get_X509_PUBKEY_def EVP_PKEY_set1_engine_def SetCustomKey_def set_ex_data_def
  EVP_PKEY_id_def EVP_PKEY_get0_RSA_def EVP_PKEY_get0_EC_KEY_def SSL_CTX_use_PrivateKey_def
  SSL_CTX_use_certificate_def SSL_CTX_set_min_proto_version_def ssl_set_version_bound_def
  valid_tls_def valid_dtls_def dtls_ver_ordinal_def LogInfo_def emit_def
  ERR_print_errors_fp_def GetCustomKey_def get_ex_data_def
  EVP_PKEY_RSA_def EVP_PKEY_EC_def SSL3_VERSION_def TLS1_2_VERSION_def TLS1_3_VERSION_def
  TLS_MAX_VERSION_INTERNAL_def TLS_ANY_VERSION_def DTLS1_BAD_VER_def DTLS1_2_VERSION_def
  DTLS_MAX_VERSION_INTERNAL_def DTLS_ANY_VERSION_def
  EVP_PKEY_FLAG_AUTOARGLEN_def EVP_PKEY_FLAG_SIGCTX_CUSTOM_def EVP_PKEY_FLAG_DYNAMIC_def
  Let_def

lemmas input_defs =
  good_lib_def handle_A_def handle_B_def native_method_def ec_pem_def dsa_pem_def
  ec_cert_def dsa_cert_def empty_ctx_def initial_world_def ec_key_def the_engine_def
  custom_method_def ready_world_def bound_world_def served_world_def served_ctx_def

section \<open>Frames\<close>

lemma log_frame_refl [simp]: "log_frame w w"
  by (simp add: log_frame_def)

lemma init_frame_refl [simp]: "init_frame w w"
  by (simp add: init_frame_def)

lemma log_frame_trans: "log_frame a b \<Longrightarrow> log_frame b c \<Longrightarrow> log_frame a c"
  by (auto simp add: log_frame_def)

lemma init_frame_trans: "init_frame a b \<Longrightarrow> init_frame b c \<Longrightarrow> init_frame a c"
  by (simp add: init_frame_def)

lemma log_frame_steps [simp]:
  "log_frame a w \<Longrightarrow> log_frame a (LogInfo w m)"
  "log_frame a w \<Longrightarrow> log_frame a (emit w (Stderr s))"
  "log_frame a w \<Longrightarrow> log_frame a (ERR_print_errors_fp w)"
  by (auto simp add: log_frame_def LogInfo_def)

lemma init_frame_steps [simp]:
  "init_frame a (LogInfo w m) = init_frame a w"
  "init_frame a (emit w (Stderr s)) = init_frame a w"
  "init_frame a (ERR_print_errors_fp w) = init_frame a w"
  by (simp_all add: init_frame_def trace_LogInfo)

section \<open>The discovery callback\<close>

text \<open>
  C8. Asked with no target (a null \<open>out_method\<close>) the callback stores the list of the
  two identifiers EC and RSA and returns 2; asked for EC or RSA it stores the method
  override of that family and returns 1; asked for any other identifier it returns 0 and
  stores nothing.
\<close>

theorem EngineGetMethods_discovery:
  "EngineGetMethods w e Null (Ptr ns) nid = Inr (2, Null, Ptr [EVP_PKEY_EC, EVP_PKEY_RSA])
   \<and> EngineGetMethods w e (Ptr m) nids EVP_PKEY_EC = Inr (1, Ptr (custom_ec_pkey_method w), nids)
   \<and> EngineGetMethods w e (Ptr m) nids EVP_PKEY_RSA = Inr (1, Ptr (custom_rsa_pkey_method w), nids)
   \<and> (nid \<noteq> EVP_PKEY_EC \<and> nid \<noteq> EVP_PKEY_RSA
        \<longrightarrow> EngineGetMethods w e (Ptr m) nids nid = Inr (0, Ptr m, nids))"
  by (simp add: EngineGetMethods_def kNIDs_def EVP_PKEY_EC_def EVP_PKEY_RSA_def)

theorem EngineGetMethods_discovery_witness:
  "(116 :: int) \<noteq> EVP_PKEY_EC \<and> (116 :: int) \<noteq> EVP_PKEY_RSA
   \<and> EngineGetMethods initial_world \<lparr>engine_addr = 16, engine_pkey_meths = Fn_EngineGetMethods\<rparr>
        (Ptr None) Null 116 = Inr (0, Ptr None, Null)
   \<and> EngineGetMethods initial_world \<lparr>engine_addr = 16, engine_pkey_meths = Fn_EngineGetMethods\<rparr>
        Null (Ptr []) 116 = Inr (2, Null, Ptr [408, 6])"
  using EngineGetMethods_discovery
          [of initial_world "\<lparr>engine_addr = 16, engine_pkey_meths = Fn_EngineGetMethods\<rparr>"
              "[]" 116 None Null]
  by (simp add: EVP_PKEY_EC_def EVP_PKEY_RSA_def)

section \<open>Attaching and finding a handle\<close>

lemma set_ex_data_frames:
  "set_ex_data ext w obj idx key = (r, w') \<Longrightarrow>
   \<forall>a. (log_frame a w \<longrightarrow> log_frame a w') \<and> (init_frame a w \<longrightarrow> init_frame a w')"
  by (auto simp add: set_ex_data_def log_frame_def init_frame_def split: if_splits)

lemma SetCustomKey_frames:
  "SetCustomKey ext w pkey key = (ok, w') \<Longrightarrow>
   \<forall>a. (log_frame a w \<longrightarrow> log_frame a w') \<and> (init_frame a w \<longrightarrow> init_frame a w')"
  by (auto simp add: SetCustomKey_def Let_def
      split: if_splits option.splits prod.splits
      dest!: set_ex_data_frames)

lemma SetCustomKey_False:
  "SetCustomKey ext w pkey key = (False, w') \<Longrightarrow> ex_data w' = ex_data w"
  by (auto simp add: SetCustomKey_def Let_def set_ex_data_def
      split: if_splits option.splits prod.splits)

lemma SetCustomKey_unsupported:
  "EVP_PKEY_id pkey \<noteq> EVP_PKEY_RSA \<Longrightarrow> EVP_PKEY_id pkey \<noteq> EVP_PKEY_EC \<Longrightarrow>
   SetCustomKey ext w pkey key = (False, w)"
  by (simp add: SetCustomKey_def)

lemma SetCustomKey_True:
  assumes "SetCustomKey ext w pkey key = (True, w')"
  shows "GetCustomKey w' pkey = Some key"
    and "pkey_ptr pkey' \<noteq> pkey_ptr pkey \<Longrightarrow> GetCustomKey w' pkey' = GetCustomKey w pkey'"
  using assms
  by (auto simp add: SetCustomKey_def GetCustomKey_def set_ex_data_def get_ex_data_def Let_def
        EVP_PKEY_get0_RSA_def EVP_PKEY_get0_EC_KEY_def EVP_PKEY_id_def
        EVP_PKEY_RSA_def EVP_PKEY_EC_def
      split: if_splits option.splits prod.splits)

lemma SetCustomKey_example_A:
  "SetCustomKey good_lib ready_world ec_key handle_A = (True, bound_world)"
  by (simp add: model_defs input_defs)

lemma SetCustomKey_example_B:
  "SetCustomKey good_lib bound_world ec_key_B handle_B = (True, two_bound_world)"
  by (simp add: model_defs input_defs ec_key_B_def two_bound_world_def)

section \<open>The signing thunk\<close>

lemma CustomDigestSign_no_pkey:
  "EVP_PKEY_CTX_get0_pkey (EVP_MD_CTX_pkey_ctx ctx) = None \<Longrightarrow>
   CustomDigestSign w ctx sig sig_len tbs tbs_len =
     (0, sig, sig_len,
      emit (LogInfo w ''calling CustomDigestSign'') (Stderr ''Could not get EVP_PKEY.''))"
  by (simp add: CustomDigestSign_def)

lemma CustomDigestSign_no_key:
  "EVP_PKEY_CTX_get0_pkey (EVP_MD_CTX_pkey_ctx ctx) = Some pkey \<Longrightarrow>
   GetCustomKey w pkey = None \<Longrightarrow>
   CustomDigestSign w ctx sig sig_len tbs tbs_len =
     (0, sig, sig_len,
      emit (LogInfo w ''calling CustomDigestSign'')
           (Stderr ''Could not get CustomKey from EVP_PKEY.''))"
  by (simp add: CustomDigestSign_def)

lemma CustomDigestSign_forward:
  "EVP_PKEY_CTX_get0_pkey (EVP_MD_CTX_pkey_ctx ctx) = Some pkey \<Longrightarrow>
   GetCustomKey w pkey = Some key \<Longrightarrow>
   CustomDigestSign w ctx sig sig_len tbs tbs_len =
     (fst (Sign key sig sig_len tbs tbs_len),
      fst (snd (Sign key sig sig_len tbs tbs_len)),
      snd (snd (Sign key sig sig_len tbs tbs_len)),
      w\<lparr>trace := trace w @ sign_log (EnableLogging w) key sig sig_len tbs tbs_len\<rparr>)"
  by (simp add: CustomDigestSign_def Let_def LogInfo_def emit_def sign_log_def
           split: prod.splits)

lemma sign_calls_sign_log:
  "sign_calls (sign_log l key sig sig_len tbs tbs_len)
     = [Call_Sign (key_addr key) sig sig_len tbs tbs_len]"
  by (simp add: sign_log_def)

lemma sign_call_targets_sign_log:
  "sign_call_targets (sign_log l key sig sig_len tbs tbs_len) = [key_addr key]"
  by (simp add: sign_log_def)

text \<open>
  C1. When the signing context holds no key, or the key has no handle attached, the thunk
  returns 0, leaves the output buffer and the output length as they were and calls no
  handle. Otherwise it calls Sign of the attached handle once, with the buffer, the
  length, the digest and the digest length it was given, and returns what Sign returned
  (result, buffer and length). In every case only the trace of the state changes.
\<close>

theorem CustomDigestSign_contract:
  "(EVP_PKEY_CTX_get0_pkey (EVP_MD_CTX_pkey_ctx ctx) = None \<longrightarrow>
      (\<exists>t. CustomDigestSign w ctx sig sig_len tbs tbs_len
              = (0, sig, sig_len, w\<lparr>trace := trace w @ t\<rparr>) \<and> sign_calls t = []))
   \<and> (\<forall>pkey. EVP_PKEY_CTX_get0_pkey (EVP_MD_CTX_pkey_ctx ctx) = Some pkey
         \<and> GetCustomKey w pkey = None \<longrightarrow>
      (\<exists>t. CustomDigestSign w ctx sig sig_len tbs tbs_len
              = (0, sig, sig_len, w\<lparr>trace := trace w @ t\<rparr>) \<and> sign_calls t = []))
   \<and> (\<forall>pkey key. EVP_PKEY_CTX_get0_pkey (EVP_MD_CTX_pkey_ctx ctx) = Some pkey
         \<and> GetCustomKey w pkey = Some key \<longrightarrow>
      (\<exists>t. CustomDigestSign w ctx sig sig_len tbs tbs_len
              = (fst (Sign key sig sig_len tbs tbs_len),
                 fst (snd (Sign key sig sig_len tbs tbs_len)),
                 snd (snd (Sign key sig sig_len tbs tbs_len)),
                 w\<lparr>trace := trace w @ t\<rparr>)
            \<and> sign_calls t = [Call_Sign (key_addr key) sig sig_len tbs tbs_len]))"
proof (intro conjI allI impI)
  let ?m = "Stdout ''tls_offload.cpp: calling CustomDigestSign....''"
  let ?pre = "if EnableLogging w then [?m] else []"
  assume "EVP_PKEY_CTX_get0_pkey (EVP_MD_CTX_pkey_ctx ctx) = None"
  then have "CustomDigestSign w ctx sig sig_len tbs tbs_len
      = (0, sig, sig_len, w\<lparr>trace := trace w @ (?pre @ [Stderr ''Could not get EVP_PKEY.''])\<rparr>)"
    by (simp add: CustomDigestSign_no_pkey LogInfo_def emit_def)
  moreover have "sign_calls (?pre @ [Stderr ''Could not get EVP_PKEY.'']) = []"
    by simp
  ultimately show "\<exists>t. CustomDigestSign w ctx sig sig_len tbs tbs_len
              = (0, sig, sig_len, w\<lparr>trace := trace w @ t\<rparr>) \<and> sign_calls t = []"
    by blast
next
  fix pkey
  let ?m = "Stdout ''tls_offload.cpp: calling CustomDigestSign....''"
  let ?pre = "if EnableLogging w then [?m] else []"
  let ?e = "Stderr ''Could not get CustomKey from EVP_PKEY.''"
  assume "EVP_PKEY_CTX_get0_pkey (EVP_MD_CTX_pkey_ctx ctx) = Some pkey
            \<and> GetCustomKey w pkey = None"
  then have "CustomDigestSign w ctx sig sig_len tbs tbs_len
      = (0, sig, sig_len, w\<lparr>trace := trace w @ (?pre @ [?e])\<rparr>)"
    by (simp add: CustomDigestSign_no_key LogInfo_def emit_def)
  moreover have "sign_calls (?pre @ [?e]) = []"
    by simp
  ultimately show "\<exists>t. CustomDigestSign w ctx sig sig_len tbs tbs_len
              = (0, sig, sig_len, w\<lparr>trace := trace w @ t\<rparr>) \<and> sign_calls t = []"
    by blast
next
  fix pkey key
  assume "EVP_PKEY_CTX_get0_pkey (EVP_MD_CTX_pkey_ctx ctx) = Some pkey
            \<and> GetCustomKey w pkey = Some key"
  then show "\<exists>t. CustomDigestSign w ctx sig sig_len tbs tbs_len
              = (fst (Sign key sig sig_len tbs tbs_len),
                 fst (snd (Sign key sig sig_len tbs tbs_len)),
                 snd (snd (Sign key sig sig_len tbs tbs_len)),
                 w\<lparr>trace := trace w @ t\<rparr>)
            \<and> sign_calls t = [Call_Sign (key_addr key) sig sig_len tbs tbs_len]"
    using CustomDigestSign_forward sign_calls_sign_log by blast
qed

theorem CustomDigestSign_contract_witness:
  "EVP_PKEY_CTX_get0_pkey (EVP_MD_CTX_pkey_ctx (signing_ctx None)) = None
   \<and> fst (CustomDigestSign initial_world (signing_ctx None) (Some []) 72 [1, 2, 3] 3) = 0
   \<and> EVP_PKEY_CTX_get0_pkey (EVP_MD_CTX_pkey_ctx (signing_ctx (Some ec_key))) = Some ec_key
   \<and> GetCustomKey initial_world ec_key = None
   \<and> fst (CustomDigestSign initial_world (signing_ctx (Some ec_key)) (Some []) 72 [1, 2, 3] 3) = 0
   \<and> GetCustomKey bound_world ec_key = Some handle_A
   \<and> fst (CustomDigestSign bound_world (signing_ctx (Some ec_key)) (Some []) 72 [1, 2, 3] 3) = 1
   \<and> fst (snd (snd (CustomDigestSign bound_world (signing_ctx (Some ec_key)) (Some []) 72 [1, 2, 3] 3)))
       = 64"
proof -
  have h1: "EVP_PKEY_CTX_get0_pkey (EVP_MD_CTX_pkey_ctx (signing_ctx None)) = None"
    by (simp add: EVP_PKEY_CTX_get0_pkey_def EVP_MD_CTX_pkey_ctx_def signing_ctx_def)
  have h2: "EVP_PKEY_CTX_get0_pkey (EVP_MD_CTX_pkey_ctx (signing_ctx (Some ec_key))) = Some ec_key"
    by (simp add: EVP_PKEY_CTX_get0_pkey_def EVP_MD_CTX_pkey_ctx_def signing_ctx_def)
  have h3: "GetCustomKey initial_world ec_key = None"
    by (simp add: model_defs input_defs)
  have h4: "GetCustomKey bound_world ec_key = Some handle_A"
    by (simp add: model_defs input_defs)
  note c1 = CustomDigestSign_contract [of "signing_ctx None" initial_world "Some []" 72 "[1, 2, 3]" 3]
  note c2 = CustomDigestSign_contract [of "signing_ctx (Some ec_key)" initial_world "Some []" 72 "[1, 2, 3]" 3]
  note c3 = CustomDigestSign_contract [of "signing_ctx (Some ec_key)" bound_world "Some []" 72 "[1, 2, 3]" 3]
  from c1 h1 have r1: "fst (CustomDigestSign initial_world (signing_ctx None) (Some []) 72 [1, 2, 3] 3) = 0"
    by auto
  from c2 h2 h3 have r2: "fst (CustomDigestSign initial_world (signing_ctx (Some ec_key)) (Some []) 72 [1, 2, 3] 3) = 0"
    by auto
  from c3 h2 h4 obtain t where t: "CustomDigestSign bound_world (signing_ctx (Some ec_key)) (Some []) 72 [1, 2, 3] 3 =
     (fst (Sign handle_A (Some []) 72 [1, 2, 3] 3), fst (snd (Sign handle_A (Some []) 72 [1, 2, 3] 3)),
      snd (snd (Sign handle_A (Some []) 72 [1, 2, 3] 3)), bound_world\<lparr>trace := trace bound_world @ t\<rparr>)"
    by blast
  have r3: "fst (CustomDigestSign bound_world (signing_ctx (Some ec_key)) (Some []) 72 [1, 2, 3] 3) = 1"
    using t by (simp add: Sign_def handle_A_def fixed_sign_def)
  have r4: "fst (snd (snd (CustomDigestSign bound_world (signing_ctx (Some ec_key)) (Some []) 72 [1, 2, 3] 3))) = 64"
    using t by (simp add: Sign_def handle_A_def fixed_sign_def)
  show ?thesis using h1 h2 h3 h4 r1 r2 r3 r4 by simp
qed

lemma CustomDigestSign_world:
  "init_frame w (snd (snd (snd (CustomDigestSign w ctx sig sig_len tbs tbs_len))))
   \<and> EnableLogging (snd (snd (snd (CustomDigestSign w ctx sig sig_len tbs tbs_len))))
       = EnableLogging w"
  by (auto simp add: CustomDigestSign_def Let_def init_frame_def trace_LogInfo
      split: option.splits prod.splits)

lemma CustomDigestSign_stdout:
  "(new_stdout w (snd (snd (snd (CustomDigestSign w ctx sig sig_len tbs tbs_len)))) = [])
      = (\<not> EnableLogging w)
   \<and> (EnableLogging w \<longrightarrow>
        hd (new_stdout w (snd (snd (snd (CustomDigestSign w ctx sig sig_len tbs tbs_len)))))
          = ''tls_offload.cpp: calling CustomDigestSign....'')"
  by (auto simp add: CustomDigestSign_def Let_def new_stdout_def trace_LogInfo
      split: option.splits prod.splits)

text \<open>
  C9. Two key objects at different addresses, each with its own handle attached, the
  handles being different objects: a thunk invocation whose signing context holds the
  first key calls Sign of the first handle, once, and of no other handle, and returns
  what that handle returned; likewise for the second key.
\<close>

theorem handle_isolation:
  assumes "SetCustomKey extA w0 keyA hA = (True, w1)"
      and "SetCustomKey extB w1 keyB hB = (True, w2)"
      and "pkey_ptr keyA \<noteq> pkey_ptr keyB"
      and "key_addr hA \<noteq> key_addr hB"
      and "EVP_PKEY_CTX_get0_pkey (EVP_MD_CTX_pkey_ctx ctxA) = Some keyA"
      and "EVP_PKEY_CTX_get0_pkey (EVP_MD_CTX_pkey_ctx ctxB) = Some keyB"
  shows "(\<exists>t. CustomDigestSign w2 ctxA sig sig_len tbs tbs_len
              = (fst (Sign hA sig sig_len tbs tbs_len),
                 fst (snd (Sign hA sig sig_len tbs tbs_len)),
                 snd (snd (Sign hA sig sig_len tbs tbs_len)),
                 w2\<lparr>trace := trace w2 @ t\<rparr>)
            \<and> sign_call_targets t = [key_addr hA]
            \<and> key_addr hB \<notin> set (sign_call_targets t))
       \<and> (\<exists>t. CustomDigestSign w2 ctxB sig sig_len tbs tbs_len
              = (fst (Sign hB sig sig_len tbs tbs_len),
                 fst (snd (Sign hB sig sig_len tbs tbs_len)),
                 snd (snd (Sign hB sig sig_len tbs tbs_len)),
                 w2\<lparr>trace := trace w2 @ t\<rparr>)
            \<and> sign_call_targets t = [key_addr hB]
            \<and> key_addr hA \<notin> set (sign_call_targets t))"
proof -
  have "GetCustomKey w1 keyA = Some hA"
    using assms(1) by (rule SetCustomKey_True(1))
  then have A: "GetCustomKey w2 keyA = Some hA"
    using SetCustomKey_True(2) [OF assms(2), of keyA] assms(3) by simp
  have B: "GetCustomKey w2 keyB = Some hB"
    using assms(2) by (rule SetCustomKey_True(1))
  let ?tA = "sign_log (EnableLogging w2) hA sig sig_len tbs tbs_len"
  let ?tB = "sign_log (EnableLogging w2) hB sig sig_len tbs tbs_len"
  have "CustomDigestSign w2 ctxA sig sig_len tbs tbs_len
              = (fst (Sign hA sig sig_len tbs tbs_len),
                 fst (snd (Sign hA sig sig_len tbs tbs_len)),
                 snd (snd (Sign hA sig sig_len tbs tbs_len)),
                 w2\<lparr>trace := trace w2 @ ?tA\<rparr>)
            \<and> sign_call_targets ?tA = [key_addr hA]
            \<and> key_addr hB \<notin> set (sign_call_targets ?tA)"
    using CustomDigestSign_forward [OF assms(5) A] assms(4)
    by (simp add: sign_call_targets_sign_log)
  moreover have "CustomDigestSign w2 ctxB sig sig_len tbs tbs_len
              = (fst (Sign hB sig sig_len tbs tbs_len),
                 fst (snd (Sign hB sig sig_len tbs tbs_len)),
                 snd (snd (Sign hB sig sig_len tbs tbs_len)),
                 w2\<lparr>trace := trace w2 @ ?tB\<rparr>)
            \<and> sign_call_targets ?tB = [key_addr hB]
            \<and> key_addr hA \<notin> set (sign_call_targets ?tB)"
    using CustomDigestSign_forward [OF assms(6) B] assms(4)
    by (simp add: sign_call_targets_sign_log)
  ultimately show ?thesis by blast
qed

theorem handle_isolation_witness:
  "SetCustomKey good_lib ready_world ec_key handle_A = (True, bound_world)
   \<and> SetCustomKey good_lib bound_world ec_key_B handle_B = (True, two_bound_world)
   \<and> pkey_ptr ec_key \<noteq> pkey_ptr ec_key_B
   \<and> key_addr handle_A \<noteq> key_addr handle_B
   \<and> EVP_PKEY_CTX_get0_pkey (EVP_MD_CTX_pkey_ctx (signing_ctx (Some ec_key))) = Some ec_key
   \<and> EVP_PKEY_CTX_get0_pkey (EVP_MD_CTX_pkey_ctx (signing_ctx (Some ec_key_B))) = Some ec_key_B
   \<and> fst (CustomDigestSign two_bound_world (signing_ctx (Some ec_key)) (Some []) 72 [1, 2, 3] 3) = 1
   \<and> fst (CustomDigestSign two_bound_world (signing_ctx (Some ec_key_B)) (Some []) 72 [1, 2, 3] 3) = 0"
proof -
  have h3: "pkey_ptr ec_key \<noteq> pkey_ptr ec_key_B"
    by (simp add: ec_key_def ec_key_B_def)
  have h4: "key_addr handle_A \<noteq> key_addr handle_B"
    by (simp add: input_defs)
  have h5: "EVP_PKEY_CTX_get0_pkey (EVP_MD_CTX_pkey_ctx (signing_ctx (Some ec_key))) = Some ec_key"
    by (simp add: EVP_PKEY_CTX_get0_pkey_def EVP_MD_CTX_pkey_ctx_def signing_ctx_def)
  have h6: "EVP_PKEY_CTX_get0_pkey (EVP_MD_CTX_pkey_ctx (signing_ctx (Some ec_key_B))) = Some ec_key_B"
    by (simp add: EVP_PKEY_CTX_get0_pkey_def EVP_MD_CTX_pkey_ctx_def signing_ctx_def)
  note iso = handle_isolation [OF SetCustomKey_example_A SetCustomKey_example_B h3 h4 h5 h6,
      of "Some []" 72 "[1, 2, 3]" 3]
  from iso have rA: "fst (CustomDigestSign two_bound_world (signing_ctx (Some ec_key)) (Some []) 72 [1, 2, 3] 3) = 1"
    by (auto simp add: Sign_def handle_A_def fixed_sign_def)
  from iso have rB: "fst (CustomDigestSign two_bound_world (signing_ctx (Some ec_key_B)) (Some []) 72 [1, 2, 3] 3) = 0"
    by (auto simp add: Sign_def handle_B_def failing_sign_def)
  show ?thesis
    using SetCustomKey_example_A SetCustomKey_example_B h3 h4 h5 h6 rA rB by simp
qed

section \<open>Creating and destroying a handle\<close>

lemma CreateCustomKey_world:
  "init_frame w (snd (CreateCustomKey w a f))
   \<and> EnableLogging (snd (CreateCustomKey w a f)) = EnableLogging w"
  by (simp add: CreateCustomKey_def Let_def)

lemma CreateCustomKey_stdout:
  "new_stdout w (snd (CreateCustomKey w a f)) =
     (if EnableLogging w then [''tls_offload.cpp: In CreateCustomKey'' @ [CHR 10] @ ''....''] else [])"
  by (simp add: CreateCustomKey_def Let_def new_stdout_def trace_LogInfo)

lemma DestroyCustomKey_world:
  "init_frame w (DestroyCustomKey w key)
   \<and> EnableLogging (DestroyCustomKey w key) = EnableLogging w"
  by (simp add: DestroyCustomKey_def)

lemma DestroyCustomKey_stdout:
  "new_stdout w (DestroyCustomKey w key) =
     (if EnableLogging w then [''tls_offload.cpp: In DestroyCustomKey'' @ [CHR 10] @ ''....''] else [])"
  by (simp add: DestroyCustomKey_def new_stdout_def trace_LogInfo)

section \<open>Initialisation\<close>

lemma InitExData_log_frame:
  "InitExData ext w = (ok, w') \<Longrightarrow> \<forall>a. log_frame a w \<longrightarrow> log_frame a w'"
  by (auto simp add: InitExData_def Let_def log_frame_def split: if_splits)

lemma InitExData_world:
  "InitExData ext w = (ok, w') \<Longrightarrow>
   custom_engine w' = custom_engine w \<and> ex_data w' = ex_data w
   \<and> InitExData_runs (trace w') = Suc (InitExData_runs (trace w))"
  by (auto simp add: InitExData_def Let_def split: if_splits)

lemma InitEngine_log_frame:
  "InitEngine ext w = (ok, w') \<Longrightarrow> \<forall>a. log_frame a w \<longrightarrow> log_frame a w'"
  by (auto simp add: InitEngine_def Let_def log_frame_def
      split: if_splits option.splits prod.splits)

lemma InitEngine_world:
  "InitEngine ext w = (ok, w') \<Longrightarrow>
   (ok \<longrightarrow> custom_engine w' \<noteq> None) \<and> (\<not> ok \<longrightarrow> custom_engine w' = custom_engine w)
   \<and> ex_data w' = ex_data w \<and> trace w' = trace w"
  by (auto simp add: InitEngine_def Let_def
      split: if_splits option.splits prod.splits)

lemma MakeCustomMethod_method:
  "MakeCustomMethod ext nid = Some m \<Longrightarrow>
   pmeth_pkey_id m = nid \<and> pmeth_digestsign m = Fn_CustomDigestSign
   \<and> (\<exists>native. EVP_PKEY_meth_find ext nid = Some native
         \<and> pmeth_init m = pmeth_init native \<and> pmeth_cleanup m = pmeth_cleanup native
         \<and> pmeth_ctrl m = pmeth_ctrl native \<and> pmeth_ctrl_str m = pmeth_ctrl_str native)"
  by (auto simp add: MakeCustomMethod_def EVP_PKEY_meth_new_def
      split: option.splits if_splits)

lemma InitEngine_methods:
  "InitEngine ext w = (True, w') \<Longrightarrow>
   (\<exists>rsa ec e.
      custom_rsa_pkey_method w' = Some rsa \<and> pmeth_pkey_id rsa = EVP_PKEY_RSA
      \<and> pmeth_digestsign rsa = Fn_CustomDigestSign
      \<and> custom_ec_pkey_method w' = Some ec \<and> pmeth_pkey_id ec = EVP_PKEY_EC
      \<and> pmeth_digestsign ec = Fn_CustomDigestSign
      \<and> custom_engine w' = Some e \<and> engine_pkey_meths e = Fn_EngineGetMethods)"
  by (auto simp add: InitEngine_def Let_def ENGINE_set_pkey_meths_def
      split: option.splits if_splits prod.splits
      dest!: MakeCustomMethod_method)

lemma lazy_init_ready:
  "custom_engine w \<noteq> None \<Longrightarrow> lazy_init ext w = (True, w)"
  by (auto simp add: lazy_init_def)

lemma lazy_init_log_frame:
  "lazy_init ext w = (ok, w') \<Longrightarrow> \<forall>a. log_frame a w \<longrightarrow> log_frame a w'"
  by (auto simp add: lazy_init_def Let_def split: if_splits prod.splits
      dest!: InitExData_log_frame InitEngine_log_frame)

lemma lazy_init_world:
  "lazy_init ext w = (ok, w') \<Longrightarrow>
   (ok \<longrightarrow> custom_engine w' \<noteq> None) \<and> (\<not> ok \<longrightarrow> custom_engine w' = None)
   \<and> ex_data w' = ex_data w
   \<and> InitExData_runs (trace w') =
         InitExData_runs (trace w) + (if custom_engine w = None then 1 else 0)"
  by (auto simp add: lazy_init_def Let_def trace_LogInfo split: if_splits prod.splits
      dest!: InitExData_world InitEngine_world)

section \<open>Binding a certificate\<close>

lemma EVP_PKEY_set1_engine_id:
  "EVP_PKEY_set1_engine ext pkey e = (r, pkey') \<Longrightarrow> EVP_PKEY_id pkey' = EVP_PKEY_id pkey"
  by (auto simp add: EVP_PKEY_set1_engine_def EVP_PKEY_id_def split: if_splits)

lemma EVP_PKEY_set1_engine_ok:
  "EVP_PKEY_set1_engine ext pkey e = (r, pkey') \<Longrightarrow> r \<noteq> 0 \<Longrightarrow> pmeth_engine pkey' = e"
  by (auto simp add: EVP_PKEY_set1_engine_def split: if_splits)

lemma ConfigureCertAndCustomKey_frames:
  "ConfigureCertAndCustomKey ext w key cert = Inr (r, w') \<Longrightarrow>
   \<forall>a. (log_frame a w \<longrightarrow> log_frame a w') \<and> (init_frame a w \<longrightarrow> init_frame a w')"
  by (auto simp add: ConfigureCertAndCustomKey_def
      split: sum.splits prod.splits if_splits option.splits
      dest!: SetCustomKey_frames)

lemma ConfigureCertAndCustomKey_None:
  "ConfigureCertAndCustomKey ext w key cert = Inr (None, w') \<Longrightarrow> ex_data w' = ex_data w"
  by (auto simp add: ConfigureCertAndCustomKey_def
      split: sum.splits prod.splits if_splits option.splits
      dest: SetCustomKey_False)


lemma ConfigureCertAndCustomKey_null_cert:
  "ConfigureCertAndCustomKey ext w key None = Inl NullDeref"
  by (simp add: ConfigureCertAndCustomKey_def X509_get_X509_PUBKEY_def)

lemma ConfigureCertAndCustomKey_fault:
  "ConfigureCertAndCustomKey ext w key cert = Inl f \<Longrightarrow> f = NullDeref \<and> cert = None"
  by (auto simp add: ConfigureCertAndCustomKey_def X509_get_X509_PUBKEY_def
      split: sum.splits prod.splits if_splits option.splits)

lemma ConfigureCertAndCustomKey_unsupported:
  "\<not> rsa_or_ec_family ext x \<Longrightarrow>
   ConfigureCertAndCustomKey ext w key (Some x) = Inr (None, w)"
  by (auto simp add: ConfigureCertAndCustomKey_def X509_get_X509_PUBKEY_def
        rsa_or_ec_family_def certificate_key_def SetCustomKey_unsupported
      split: sum.splits prod.splits if_splits option.splits
      dest: EVP_PKEY_set1_engine_id)



lemma ServeTLS_frames:
  "ServeTLS ext w key cert ctx = Inr (ok, w', ctx') \<Longrightarrow>
   \<forall>a. (log_frame a w \<longrightarrow> log_frame a w') \<and> (init_frame a w \<longrightarrow> init_frame a w')"
  by (auto simp add: ServeTLS_def Let_def
      split: sum.splits prod.splits if_splits option.splits
      dest!: ConfigureCertAndCustomKey_frames)

lemma ServeTLS_init_frame:
  "ServeTLS ext w key cert ctx = Inr (ok, w', ctx') \<Longrightarrow> init_frame w w'"
  by (auto dest!: ServeTLS_frames)


lemma ServeTLS_fault:
  "ServeTLS ext w key cert ctx = Inl f \<Longrightarrow>
   f = NullDeref
   \<and> (\<exists>bio. BIO_new_mem_buf ext cert (length cert) = Some bio
             \<and> PEM_read_bio_X509 ext bio = None)"
  by (auto simp add: ServeTLS_def Let_def
      split: sum.splits prod.splits if_splits option.splits
      dest!: ConfigureCertAndCustomKey_fault)

lemma ServeTLS_unparsed:
  "BIO_new_mem_buf ext cert (length cert) = Some bio \<Longrightarrow> PEM_read_bio_X509 ext bio = None \<Longrightarrow>
   ServeTLS ext w key cert ctx = Inl NullDeref"
  by (simp add: ServeTLS_def Let_def ConfigureCertAndCustomKey_null_cert)

section \<open>The entry point\<close>

lemma OffloadSigning_log_frame:
  "OffloadSigning ext w key cert ctx = Inr (r, w', ctx') \<Longrightarrow>
   log_frame (LogInfo (w\<lparr>EnableLogging := getenv ext ''GOOGLE_AUTH_TLS_OFFLOAD_LOGGING'' \<noteq> None\<rparr>)
                ''entering offload function'') w'"
  by (auto simp add: OffloadSigning_def Let_def
      split: sum.splits prod.splits if_splits
      dest!: lazy_init_log_frame ServeTLS_frames)

lemma OffloadSigning_EnableLogging:
  "OffloadSigning ext w key cert ctx = Inr (r, w', ctx') \<Longrightarrow>
   EnableLogging w' = (getenv ext ''GOOGLE_AUTH_TLS_OFFLOAD_LOGGING'' \<noteq> None)"
  by (auto dest!: OffloadSigning_log_frame simp add: log_frame_def)

lemma OffloadSigning_init:
  "OffloadSigning ext w key cert ctx = Inr (r, w', ctx') \<Longrightarrow>
   InitExData_runs (trace w') =
     InitExData_runs (trace w) + (if custom_engine w = None then 1 else 0)"
  by (auto simp add: OffloadSigning_def Let_def trace_LogInfo init_frame_def
      split: sum.splits prod.splits if_splits
      dest!: lazy_init_world ServeTLS_init_frame)

lemma OffloadSigning_ready:
  "OffloadSigning ext w key cert ctx = Inr (r, w', ctx') \<Longrightarrow> custom_engine w \<noteq> None \<Longrightarrow>
   init_frame w w'"
  apply (simp add: OffloadSigning_def Let_def lazy_init_ready)
  apply (auto simp add: trace_LogInfo init_frame_def
      split: sum.splits prod.splits if_splits
      dest!: ServeTLS_init_frame)
  done

lemma OffloadSigning_flag:
  "OffloadSigning ext w key cert ctx = Inr (r, w', ctx') \<Longrightarrow>
   (r = 0 \<or> r = 1) \<and> (r = 0 \<longrightarrow> last (trace w') = ERR_print_errors_stderr)"
  by (auto simp add: OffloadSigning_def Let_def
      split: sum.splits prod.splits if_splits)

lemma OffloadSigning_returns:
  "OffloadSigning ext w key cert ctx = Inr (r, w', ctx') \<Longrightarrow>
   (r = 1) =
     (\<exists>w3 w4.
        lazy_init ext
          (LogInfo (w\<lparr>EnableLogging := getenv ext ''GOOGLE_AUTH_TLS_OFFLOAD_LOGGING'' \<noteq> None\<rparr>)
             ''entering offload function'') = (True, w3)
        \<and> ServeTLS ext w3 key cert ctx = Inr (True, w4, ctx'))"
  by (auto simp add: OffloadSigning_def Let_def
      split: sum.splits prod.splits if_splits)

lemma OffloadSigning_example:
  "OffloadSigning good_lib initial_world handle_A ec_pem empty_ctx
     = Inr (1, served_world, served_ctx)"
  by (simp add: model_defs input_defs)

lemma OffloadSigning_example_logged:
  "\<not> isl (OffloadSigning empty_value_lib initial_world handle_A ec_pem empty_ctx)"
  by (simp add: model_defs input_defs empty_value_lib_def)

text \<open>
  The only fault of the entry point is the null certificate: it faults exactly when the
  engine is ready, the buffer object was created and the text did not parse as a
  certificate.
\<close>

lemma OffloadSigning_fault:
  "OffloadSigning ext w key cert ctx = Inl f \<Longrightarrow>
   f = NullDeref
   \<and> (\<exists>bio. BIO_new_mem_buf ext cert (length cert) = Some bio
             \<and> PEM_read_bio_X509 ext bio = None)"
  by (auto simp add: OffloadSigning_def Let_def
      split: sum.splits prod.splits if_splits
      dest!: ServeTLS_fault)

lemma OffloadSigning_unparsed:
  assumes "BIO_new_mem_buf ext cert (length cert) = Some bio"
      and "PEM_read_bio_X509 ext bio = None"
  shows "OffloadSigning ext w key cert ctx = Inl NullDeref
         \<or> (\<exists>w'. OffloadSigning ext w key cert ctx = Inr (0, w', ctx) \<and> custom_engine w' = None)"
proof -
  let ?w2 = "LogInfo (w\<lparr>EnableLogging :=
                (if getenv ext ''GOOGLE_AUTH_TLS_OFFLOAD_LOGGING'' = None then False else True)\<rparr>)
              ''entering offload function''"
  obtain ready w3 where init: "lazy_init ext ?w2 = (ready, w3)"
    by (cases "lazy_init ext ?w2") auto
  show ?thesis
  proof (cases ready)
    case True
    with init ServeTLS_unparsed [OF assms] show ?thesis
      by (simp add: OffloadSigning_def Let_def)
  next
    case False
    with init have "custom_engine w3 = None"
      by (auto dest!: lazy_init_world)
    with False init show ?thesis
      by (simp add: OffloadSigning_def Let_def)
  qed
qed

lemma OffloadSigning_unparsed_ready:
  "custom_engine w \<noteq> None \<Longrightarrow> BIO_new_mem_buf ext cert (length cert) = Some bio \<Longrightarrow>
   PEM_read_bio_X509 ext bio = None \<Longrightarrow> OffloadSigning ext w key cert ctx = Inl NullDeref"
  by (simp add: OffloadSigning_def Let_def lazy_init_ready ServeTLS_unparsed)





text \<open>
  C4. When the text parses as a certificate and the key object built from its public key
  is neither RSA nor EC (or cannot be built), the entry point returns 0, the context is
  the one it was given, and no handle was attached to any key.
\<close>

theorem unsupported_family_fails:
  assumes "BIO_new_mem_buf ext cert (length cert) = Some bio"
      and "PEM_read_bio_X509 ext bio = Some x509"
      and "\<not> rsa_or_ec_family ext x509"
  shows "\<exists>w'. OffloadSigning ext w custom_key cert ctx = Inr (0, w', ctx)
              \<and> ex_data w' = ex_data w"
proof -
  let ?w2 = "LogInfo (w\<lparr>EnableLogging :=
                (if getenv ext ''GOOGLE_AUTH_TLS_OFFLOAD_LOGGING'' = None then False else True)\<rparr>)
              ''entering offload function''"
  obtain ready w3 where init: "lazy_init ext ?w2 = (ready, w3)"
    by (cases "lazy_init ext ?w2") auto
  then have ex: "ex_data w3 = ex_data w"
    by (auto dest!: lazy_init_world)
  show ?thesis
  proof (cases ready)
    case False
    with init ex show ?thesis
      by (simp add: OffloadSigning_def Let_def)
  next
    case True
    have "ServeTLS ext w3 custom_key cert ctx =
            Inr (False,
                 LogInfo (LogInfo (LogInfo (LogInfo w3 ''calling ServeTLS'')
                                     ''create x509 using the provided cert'')
                            ''create custom key'')
                   ''failed to create custom key'',
                 ctx)"
      using assms by (simp add: ServeTLS_def Let_def ConfigureCertAndCustomKey_unsupported)
    with True init ex show ?thesis
      by (simp add: OffloadSigning_def Let_def)
  qed
qed

theorem unsupported_family_fails_witness:
  "BIO_new_mem_buf good_lib dsa_pem (length dsa_pem) = Some \<lparr>bio_buf = dsa_pem\<rparr>
   \<and> PEM_read_bio_X509 good_lib \<lparr>bio_buf = dsa_pem\<rparr> = Some dsa_cert
   \<and> \<not> rsa_or_ec_family good_lib dsa_cert
   \<and> \<not> isl (OffloadSigning good_lib initial_world handle_A dsa_pem empty_ctx)
   \<and> fst (projr (OffloadSigning good_lib initial_world handle_A dsa_pem empty_ctx)) = 0
   \<and> snd (snd (projr (OffloadSigning good_lib initial_world handle_A dsa_pem empty_ctx))) = empty_ctx"
proof -
  have h1: "BIO_new_mem_buf good_lib dsa_pem (length dsa_pem) = Some \<lparr>bio_buf = dsa_pem\<rparr>"
    by (simp add: good_lib_def)
  have h2: "PEM_read_bio_X509 good_lib \<lparr>bio_buf = dsa_pem\<rparr> = Some dsa_cert"
    by (simp add: good_lib_def dsa_pem_def ec_pem_def)
  have h3: "\<not> rsa_or_ec_family good_lib dsa_cert"
    by (simp add: rsa_or_ec_family_def certificate_key_def model_defs input_defs)
  from unsupported_family_fails [OF h1 h2 h3, of initial_world handle_A empty_ctx]
  obtain w' where "OffloadSigning good_lib initial_world handle_A dsa_pem empty_ctx
                     = Inr (0, w', empty_ctx)"
    by blast
  with h1 h2 h3 show ?thesis
    by simp
qed

text \<open>
  C5. A text that does not parse as a certificate: the null result of the parser reaches
  \<open>X509_get_X509_PUBKEY\<close>, and the call faults instead of returning 0.
\<close>

theorem malformed_certificate_faults:
  "OffloadSigning good_lib initial_world handle_A ''not a certificate'' empty_ctx = Inl NullDeref"
  by (simp add: model_defs input_defs)

text \<open>
  C2. The entry point returns 1 on a call where initialisation and binding succeed; on
  the next call, with the engine ready and a text that does not parse as a certificate,
  it faults instead of returning 0.
\<close>

theorem malformed_certificate_after_success_faults:
  "OffloadSigning good_lib initial_world handle_A ec_pem empty_ctx
     = Inr (1, served_world, served_ctx)
   \<and> OffloadSigning good_lib served_world handle_B ''garbage'' empty_ctx = Inl NullDeref"
  by (simp add: model_defs input_defs)

text \<open>
  With the variable absent from the environment, the call leaves the logging flag off
  and prints nothing to the standard output.
\<close>

theorem absent_variable_disables_logging:
  "getenv good_lib ''GOOGLE_AUTH_TLS_OFFLOAD_LOGGING'' = None
   \<and> \<not> isl (OffloadSigning good_lib initial_world handle_A ec_pem empty_ctx)
   \<and> \<not> EnableLogging (fst (snd (projr (OffloadSigning good_lib initial_world handle_A ec_pem empty_ctx))))
   \<and> stdout_lines (trace (fst (snd (projr (OffloadSigning good_lib initial_world handle_A ec_pem empty_ctx))))) = []"
  by (simp add: OffloadSigning_example) (simp add: input_defs)

text \<open>
  C7, as the code has it. After a call that returns, logging is on exactly when the
  variable is present in the environment, whatever its value, the empty one included.
  With the variable absent the call prints nothing to the standard output; with it
  present the first thing the call adds to the trace is the line announcing the call.
\<close>

theorem logging_follows_presence:
  assumes "OffloadSigning ext w key cert ctx = Inr (r, w', ctx')"
  shows "EnableLogging w' = (getenv ext ''GOOGLE_AUTH_TLS_OFFLOAD_LOGGING'' \<noteq> None)
         \<and> (getenv ext ''GOOGLE_AUTH_TLS_OFFLOAD_LOGGING'' = None
              \<longrightarrow> stdout_lines (trace w') = stdout_lines (trace w))
         \<and> (\<forall>v. getenv ext ''GOOGLE_AUTH_TLS_OFFLOAD_LOGGING'' = Some v
              \<longrightarrow> prefix (trace w @ [Stdout ''tls_offload.cpp: entering offload function....''])
                         (trace w'))"
  using OffloadSigning_log_frame [OF assms]
  by (auto simp add: log_frame_def trace_LogInfo)

theorem logging_follows_presence_witness:
  "getenv good_lib ''GOOGLE_AUTH_TLS_OFFLOAD_LOGGING'' = None
   \<and> OffloadSigning good_lib initial_world handle_A ec_pem empty_ctx
       = Inr (1, served_world, served_ctx)
   \<and> \<not> EnableLogging served_world
   \<and> stdout_lines (trace served_world) = stdout_lines (trace initial_world)
   \<and> getenv empty_value_lib ''GOOGLE_AUTH_TLS_OFFLOAD_LOGGING'' = Some []
   \<and> \<not> isl (OffloadSigning empty_value_lib initial_world handle_A ec_pem empty_ctx)
   \<and> EnableLogging (fst (snd (projr (OffloadSigning empty_value_lib initial_world handle_A ec_pem empty_ctx))))
   \<and> prefix [Stdout ''tls_offload.cpp: entering offload function....'']
        (trace (fst (snd (projr (OffloadSigning empty_value_lib initial_world handle_A ec_pem empty_ctx)))))"
proof -
  let ?R = "OffloadSigning empty_value_lib initial_world handle_A ec_pem empty_ctx"
  have a: "getenv good_lib ''GOOGLE_AUTH_TLS_OFFLOAD_LOGGING'' = None"
    by (simp add: good_lib_def)
  have p: "getenv empty_value_lib ''GOOGLE_AUTH_TLS_OFFLOAD_LOGGING'' = Some []"
    by (simp add: empty_value_lib_def)
  have t0: "trace initial_world = []"
    by (simp add: initial_world_def)
  from logging_follows_presence [OF OffloadSigning_example] a
  have r1: "\<not> EnableLogging served_world"
    and r2: "stdout_lines (trace served_world) = stdout_lines (trace initial_world)"
    by simp_all
  have e: "?R = Inr (fst (projr ?R), fst (snd (projr ?R)), snd (snd (projr ?R)))"
    using OffloadSigning_example_logged by simp
  from logging_follows_presence [OF e] p t0
  have r3: "EnableLogging (fst (snd (projr ?R)))"
    and r4: "prefix [Stdout ''tls_offload.cpp: entering offload function....'']
               (trace (fst (snd (projr ?R))))"
    by simp_all
  show ?thesis
    using a p r1 r2 r3 r4 OffloadSigning_example OffloadSigning_example_logged by simp
qed

section \<open>Sequences of calls\<close>

lemma api_step_init_frame:
  "api_step w c = Inr w' \<Longrightarrow> custom_engine w \<noteq> None \<Longrightarrow> init_frame w w'"
proof (cases c)
  case (Do_OffloadSigning ext key cert ctx)
  assume "api_step w c = Inr w'" and "custom_engine w \<noteq> None"
  with Do_OffloadSigning show ?thesis
    by (auto split: sum.splits dest: OffloadSigning_ready)
next
  case (Do_CustomDigestSign ctx sig sig_len tbs tbs_len)
  assume "api_step w c = Inr w'"
  with Do_CustomDigestSign show ?thesis
    using CustomDigestSign_world by auto
next
  case (Do_CreateCustomKey a f)
  assume "api_step w c = Inr w'"
  with Do_CreateCustomKey show ?thesis
    using CreateCustomKey_world by auto
next
  case (Do_DestroyCustomKey key)
  assume "api_step w c = Inr w'"
  with Do_DestroyCustomKey show ?thesis
    using DestroyCustomKey_world by auto
qed

lemma run_calls_init_frame:
  "run_calls w calls = Inr w' \<Longrightarrow> custom_engine w \<noteq> None \<Longrightarrow> init_frame w w'"
proof (induction calls arbitrary: w)
  case Nil
  then show ?case by simp
next
  case (Cons c calls)
  from Cons.prems(1) obtain w1 where
    step: "api_step w c = Inr w1" and rest: "run_calls w1 calls = Inr w'"
    by (auto split: sum.splits)
  from step Cons.prems(2) have f1: "init_frame w w1"
    by (rule api_step_init_frame)
  with Cons.prems(2) have "custom_engine w1 \<noteq> None"
    by (simp add: init_frame_def)
  with rest have "init_frame w1 w'"
    by (rule Cons.IH)
  with f1 show ?case
    by (rule init_frame_trans)
qed

lemma api_step_logging:
  "api_step w c = Inr w' \<Longrightarrow> EnableLogging w' = last_logging (EnableLogging w) [c]"
proof (cases c)
  case (Do_OffloadSigning ext key cert ctx)
  assume "api_step w c = Inr w'"
  with Do_OffloadSigning show ?thesis
    by (auto split: sum.splits dest: OffloadSigning_EnableLogging)
next
  case (Do_CustomDigestSign ctx sig sig_len tbs tbs_len)
  assume "api_step w c = Inr w'"
  with Do_CustomDigestSign show ?thesis
    using CustomDigestSign_world by auto
next
  case (Do_CreateCustomKey a f)
  assume "api_step w c = Inr w'"
  with Do_CreateCustomKey show ?thesis
    using CreateCustomKey_world by auto
next
  case (Do_DestroyCustomKey key)
  assume "api_step w c = Inr w'"
  with Do_DestroyCustomKey show ?thesis
    using DestroyCustomKey_world by auto
qed

lemma last_logging_Cons: "last_logging b (c # cs) = last_logging (last_logging b [c]) cs"
  by (cases c) simp_all

lemma run_calls_logging:
  "run_calls w calls = Inr w' \<Longrightarrow> EnableLogging w' = last_logging (EnableLogging w) calls"
proof (induction calls arbitrary: w)
  case Nil
  then show ?case by simp
next
  case (Cons c calls)
  from Cons.prems obtain w1 where
    step: "api_step w c = Inr w1" and rest: "run_calls w1 calls = Inr w'"
    by (auto split: sum.splits)
  from rest have "EnableLogging w' = last_logging (EnableLogging w1) calls"
    by (rule Cons.IH)
  also from step have "EnableLogging w1 = last_logging (EnableLogging w) [c]"
    by (rule api_step_logging)
  finally show ?case
    by (simp add: last_logging_Cons [of _ c calls])
qed

text \<open>
  A first call in which the engine cannot be allocated, then a call in which everything
  succeeds: \<open>InitExData\<close> has run twice.
\<close>

theorem failed_initialisation_runs_InitExData_again:
  "\<not> isl (run_calls initial_world
             [Do_OffloadSigning no_engine_lib handle_A ec_pem empty_ctx,
              Do_OffloadSigning good_lib handle_A ec_pem empty_ctx])
   \<and> InitExData_runs (trace (projr (run_calls initial_world
             [Do_OffloadSigning no_engine_lib handle_A ec_pem empty_ctx,
              Do_OffloadSigning good_lib handle_A ec_pem empty_ctx]))) = 2"
  by (simp add: model_defs input_defs no_engine_lib_def)

text \<open>
  C6, as the code has it. Once the engine is set, no sequence of calls runs
  \<open>InitExData\<close> again or changes the engine, the slot indices or the method tables.
  A call of the entry point that finds the engine unset runs \<open>InitExData\<close> exactly
  once.
\<close>

theorem initialised_engine_is_kept:
  "(run_calls w calls = Inr w' \<and> custom_engine w \<noteq> None \<longrightarrow>
      InitExData_runs (trace w') = InitExData_runs (trace w)
      \<and> custom_engine w' = custom_engine w
      \<and> rsa_ex_index w' = rsa_ex_index w \<and> ec_ex_index w' = ec_ex_index w
      \<and> custom_rsa_pkey_method w' = custom_rsa_pkey_method w
      \<and> custom_ec_pkey_method w' = custom_ec_pkey_method w)
   \<and> (OffloadSigning ext w key cert ctx = Inr (r, w1, ctx1) \<and> custom_engine w = None \<longrightarrow>
      InitExData_runs (trace w1) = Suc (InitExData_runs (trace w)))"
  using run_calls_init_frame [of w calls w'] OffloadSigning_init [of ext w key cert ctx r w1 ctx1]
  by (auto simp add: init_frame_def)

theorem initialised_engine_is_kept_witness:
  "\<not> isl (run_calls served_world
            [Do_OffloadSigning good_lib handle_B dsa_pem empty_ctx,
             Do_CreateCustomKey 8192 failing_sign])
   \<and> custom_engine served_world \<noteq> None
   \<and> InitExData_runs (trace (projr (run_calls served_world
            [Do_OffloadSigning good_lib handle_B dsa_pem empty_ctx,
             Do_CreateCustomKey 8192 failing_sign]))) = InitExData_runs (trace served_world)
   \<and> OffloadSigning good_lib initial_world handle_A ec_pem empty_ctx
       = Inr (1, served_world, served_ctx)
   \<and> custom_engine initial_world = None
   \<and> InitExData_runs (trace served_world) = Suc (InitExData_runs (trace initial_world))"
proof -
  let ?calls = "[Do_OffloadSigning good_lib handle_B dsa_pem empty_ctx,
                 Do_CreateCustomKey 8192 failing_sign]"
  have run: "\<not> isl (run_calls served_world ?calls)"
    by (simp add: model_defs input_defs CreateCustomKey_def)
  then have e: "run_calls served_world ?calls = Inr (projr (run_calls served_world ?calls))"
    by simp
  have eng: "custom_engine served_world \<noteq> None"
    by (simp add: input_defs)
  have none: "custom_engine initial_world = None"
    by (simp add: initial_world_def)
  from initialised_engine_is_kept
         [of served_world ?calls "projr (run_calls served_world ?calls)"] e eng
  have r1: "InitExData_runs (trace (projr (run_calls served_world ?calls)))
              = InitExData_runs (trace served_world)"
    by blast
  from initialised_engine_is_kept
         [of initial_world "[]" initial_world good_lib handle_A ec_pem empty_ctx 1
             served_world served_ctx]
       OffloadSigning_example none
  have r2: "InitExData_runs (trace served_world) = Suc (InitExData_runs (trace initial_world))"
    by blast
  show ?thesis
    using run eng r1 OffloadSigning_example none r2 by simp
qed

text \<open>
  C10. The logging flag is off in the initial state. After any sequence of calls it is
  what the environment of the last call of the entry point said (variable present or
  not), and off when there was no such call. What the thunk and the creation and the
  destruction of a handle then print to the standard output follows that flag: their
  line when it is on, nothing when it is off.
\<close>

theorem logging_flag_of_last_call:
  assumes "run_calls initial_world calls = Inr w"
  shows "\<not> EnableLogging initial_world
         \<and> EnableLogging w = last_logging False calls
         \<and> (new_stdout w (snd (snd (snd (CustomDigestSign w ctx sig sig_len tbs tbs_len)))) = [])
              = (\<not> last_logging False calls)
         \<and> (last_logging False calls \<longrightarrow>
              hd (new_stdout w (snd (snd (snd (CustomDigestSign w ctx sig sig_len tbs tbs_len)))))
                = ''tls_offload.cpp: calling CustomDigestSign....'')
         \<and> new_stdout w (snd (CreateCustomKey w a f)) =
             (if last_logging False calls
              then [''tls_offload.cpp: In CreateCustomKey'' @ [CHR 10] @ ''....''] else [])
         \<and> new_stdout w (DestroyCustomKey w key) =
             (if last_logging False calls
              then [''tls_offload.cpp: In DestroyCustomKey'' @ [CHR 10] @ ''....''] else [])"
proof -
  have init: "\<not> EnableLogging initial_world"
    by (simp add: initial_world_def)
  with run_calls_logging [OF assms] have flag: "EnableLogging w = last_logging False calls"
    by simp
  show ?thesis
    using init flag CustomDigestSign_stdout [of w ctx sig sig_len tbs tbs_len]
      CreateCustomKey_stdout [of w a f] DestroyCustomKey_stdout [of w key]
    by simp
qed

theorem logging_flag_of_last_call_witness:
  "\<not> isl (run_calls initial_world
            [Do_OffloadSigning empty_value_lib handle_A ec_pem empty_ctx,
             Do_OffloadSigning good_lib handle_B dsa_pem empty_ctx])
   \<and> \<not> EnableLogging (projr (run_calls initial_world
            [Do_OffloadSigning empty_value_lib handle_A ec_pem empty_ctx,
             Do_OffloadSigning good_lib handle_B dsa_pem empty_ctx]))
   \<and> \<not> isl (run_calls initial_world
            [Do_OffloadSigning empty_value_lib handle_A ec_pem empty_ctx])
   \<and> EnableLogging (projr (run_calls initial_world
            [Do_OffloadSigning empty_value_lib handle_A ec_pem empty_ctx]))
   \<and> new_stdout (projr (run_calls initial_world
            [Do_OffloadSigning empty_value_lib handle_A ec_pem empty_ctx]))
         (DestroyCustomKey (projr (run_calls initial_world
            [Do_OffloadSigning empty_value_lib handle_A ec_pem empty_ctx])) handle_A)
       = [''tls_offload.cpp: In DestroyCustomKey'' @ [CHR 10] @ ''....'']"
proof -
  let ?on = "Do_OffloadSigning empty_value_lib handle_A ec_pem empty_ctx"
  let ?off = "Do_OffloadSigning good_lib handle_B dsa_pem empty_ctx"
  have run2: "\<not> isl (run_calls initial_world [?on, ?off])"
    by (simp add: model_defs input_defs empty_value_lib_def)
  have run1: "\<not> isl (run_calls initial_world [?on])"
    by (simp add: model_defs input_defs empty_value_lib_def)
  from run2 have e2: "run_calls initial_world [?on, ?off]
                        = Inr (projr (run_calls initial_world [?on, ?off]))"
    by simp
  from run1 have e1: "run_calls initial_world [?on] = Inr (projr (run_calls initial_world [?on]))"
    by simp
  from logging_flag_of_last_call [OF e2]
  have r2: "\<not> EnableLogging (projr (run_calls initial_world [?on, ?off]))"
    by (simp add: good_lib_def)
  from logging_flag_of_last_call [OF e1, of _ _ _ _ _ _ _ handle_A]
  have r1: "EnableLogging (projr (run_calls initial_world [?on]))"
    and r3: "new_stdout (projr (run_calls initial_world [?on]))
               (DestroyCustomKey (projr (run_calls initial_world [?on])) handle_A)
             = [''tls_offload.cpp: In DestroyCustomKey'' @ [CHR 10] @ ''....'']"
    by (simp_all add: empty_value_lib_def)
  show ?thesis
    using run1 run2 r1 r2 r3 by simp
qed

end
